theory Spec2Isabelle
  imports Main "HOL-Library.Word"
begin

unbundle bit_operations_syntax

section \<open>Environment table (kern/env.c)\<close>

text \<open>
  The environment table \<open>env_array[NENV]\<close> is a list of \<open>Env\<close> records. A pointer
  \<open>struct Env *\<close> into the table is the index of the slot it points to (\<open>env - envs\<close>);
  the null pointer is \<open>None\<close>. \<open>envid_t\<close> is \<open>int32_t\<close>: a 32-bit word, read as a
  signed value with \<open>sint\<close>; arithmetic on it wraps as two's complement.
\<close>

type_synonym envid_t = "32 word"
type_synonym env_ptr = "nat option"

datatype EnvStatus = ENV_FREE | ENV_DYING | ENV_RUNNABLE | ENV_RUNNING | ENV_NOT_RUNNABLE

datatype error = E_BAD_ENV | E_NO_FREE_ENV | E_INVALID_EXE

text \<open>
  The registers of \<open>struct PushRegs\<close> and the fields of \<open>struct Trapframe\<close> that
  kern/env.c names (\<open>env_alloc\<close>, \<open>load_icode\<close>, \<open>env_pop_tf\<close>).
\<close>

record PushRegs =
  reg_r15 :: "64 word"
  reg_r14 :: "64 word"
  reg_r13 :: "64 word"
  reg_r12 :: "64 word"
  reg_r11 :: "64 word"
  reg_r10 :: "64 word"
  reg_r9 :: "64 word"
  reg_r8 :: "64 word"
  reg_rsi :: "64 word"
  reg_rdi :: "64 word"
  reg_rbp :: "64 word"
  reg_rdx :: "64 word"
  reg_rcx :: "64 word"
  reg_rbx :: "64 word"
  reg_rax :: "64 word"

record Trapframe =
  tf_regs :: PushRegs
  tf_es :: "16 word"
  tf_ds :: "16 word"
  tf_rip :: "64 word"
  tf_cs :: "16 word"
  tf_rflags :: "64 word"
  tf_rsp :: "64 word"
  tf_ss :: "16 word"

text \<open>\<open>env_type\<close> holds an \<open>enum EnvType\<close>, whose enumerators env.c never names: an int.\<close>

record Env =
  env_tf :: Trapframe
  env_link :: env_ptr
  env_id :: envid_t
  env_parent_id :: envid_t
  env_type :: "32 word"
  env_status :: EnvStatus
  env_runs :: "32 word"

text \<open>
  The globals of env.c: the table, the head of the free list, the current environment,
  and the function-local static \<open>stack_top\<close> of \<open>env_alloc\<close>.
\<close>

record kstate =
  envs :: "Env list"
  env_free_list :: env_ptr
  curenv :: env_ptr
  stack_top :: "64 word"

definition NENV :: "kstate \<Rightarrow> nat" where
  "NENV s = length (envs s)"

text \<open>
  Modelled from the spec: the macro \<open>ENVX\<close> (inc/env.h, not part of the sources at hand)
  extracts the slot index with a fixed low-bit mask matching the table capacity, which is a
  power of two: \<open>ENVX(envid) = envid & (NENV - 1)\<close>.
\<close>

definition ENVX :: "nat \<Rightarrow> envid_t \<Rightarrow> nat" where
  "ENVX nenv envid = unat (envid AND (word_of_nat nenv - 1))"

text \<open>
  \<open>envid2env\<close> returns its return value together with what it stores in \<open>*env_store\<close>.
  The outer \<open>None\<close> is the one path on which the C code reads \<open>curenv->env_id\<close> through
  a null \<open>curenv\<close>: permission checking requested with no current environment.
\<close>

definition envid2env :: "kstate \<Rightarrow> envid_t \<Rightarrow> bool \<Rightarrow> ((error + unit) \<times> env_ptr) option" where
  "envid2env s envid need_check_perm =
     (if envid = 0 then Some (Inr (), curenv s)
      else
        let e = ENVX (NENV s) envid;
            env = envs s ! e
        in if env_status env = ENV_FREE \<or> env_id env \<noteq> envid then Some (Inl E_BAD_ENV, None)
           else if need_check_perm \<and> Some e \<noteq> curenv s then
             (case curenv s of
                None \<Rightarrow> None
              | Some c \<Rightarrow>
                  if env_parent_id env \<noteq> env_id (envs s ! c) then Some (Inl E_BAD_ENV, None)
                  else Some (Inr (), Some e))
           else Some (Inr (), Some e))"

text \<open>
  Constants of headers that are not part of the sources at hand (inc/memlayout.h,
  inc/mmu.h), taken as parameters: the kernel segment selectors, the flag bits, the size of
  an environment's stack and the upper address bound of an environment.
\<close>

record kconsts =
  GD_KD :: "16 word"
  GD_KT :: "16 word"
  FL_IF :: "64 word"
  FL_IOPL_0 :: "64 word"
  USTACKSIZE :: "64 word"
  UTOP :: "64 word"

definition ENVGENSHIFT :: nat where
  "ENVGENSHIFT = 12"

text \<open>\<open>env_init\<close>: the loop runs from slot \<open>NENV - 1\<close> down to slot 0.\<close>

fun env_init_loop :: "nat \<Rightarrow> kstate \<Rightarrow> kstate" where
  "env_init_loop 0 s = s"
| "env_init_loop (Suc i) s =
     env_init_loop i
       (s\<lparr>envs := (envs s)[i := (envs s ! i)\<lparr>env_link := env_free_list s, env_id := 0\<rparr>],
          env_free_list := Some i\<rparr>)"

definition env_init :: "kstate \<Rightarrow> kstate" where
  "env_init s = env_init_loop (NENV s) (s\<lparr>env_free_list := None\<rparr>)"

text \<open>What \<open>memset(&env->env_tf, 0, sizeof(env->env_tf))\<close> leaves.\<close>

definition zero_regs :: PushRegs where
  "zero_regs = \<lparr>reg_r15 = 0, reg_r14 = 0, reg_r13 = 0, reg_r12 = 0, reg_r11 = 0, reg_r10 = 0,
     reg_r9 = 0, reg_r8 = 0, reg_rsi = 0, reg_rdi = 0, reg_rbp = 0, reg_rdx = 0, reg_rcx = 0,
     reg_rbx = 0, reg_rax = 0\<rparr>"

definition zero_tf :: Trapframe where
  "zero_tf = \<lparr>tf_regs = zero_regs, tf_es = 0, tf_ds = 0, tf_rip = 0, tf_cs = 0,
     tf_rflags = 0, tf_rsp = 0, tf_ss = 0\<rparr>"

text \<open>
  The generation of \<open>env_alloc\<close>, computed in \<open>int32_t\<close> from the slot's previous
  identifier: \<open>(env_id + (1 << ENVGENSHIFT)) & ~(NENV - 1)\<close>, replaced by
  \<open>1 << ENVGENSHIFT\<close> when it is not positive. The addition wraps as two's complement.
\<close>

definition raw_generation :: "nat \<Rightarrow> envid_t \<Rightarrow> envid_t" where
  "raw_generation nenv old_id = (old_id + push_bit ENVGENSHIFT 1) AND NOT (word_of_nat nenv - 1)"

definition next_generation :: "nat \<Rightarrow> envid_t \<Rightarrow> envid_t" where
  "next_generation nenv old_id =
     (let generation = raw_generation nenv old_id
      in if sint generation \<le> 0 then push_bit ENVGENSHIFT 1 else generation)"

text \<open>
  \<open>env_alloc\<close> returns the error or the slot stored in \<open>*newenv_store\<close>, and the state
  it leaves.
\<close>

definition env_alloc :: "kconsts \<Rightarrow> kstate \<Rightarrow> envid_t \<Rightarrow> 32 word \<Rightarrow> (error + nat) \<times> kstate" where
  "env_alloc kc s parent_id type =
     (case env_free_list s of
        None \<Rightarrow> (Inl E_NO_FREE_ENV, s)
      | Some e \<Rightarrow>
          let env = envs s ! e;
              generation = next_generation (NENV s) (env_id env);
              env = env\<lparr>env_id := generation OR word_of_nat e\<rparr>;
              env = env\<lparr>env_parent_id := parent_id, env_type := type,
                       env_status := ENV_RUNNABLE, env_runs := 0\<rparr>;
              env = env\<lparr>env_tf := zero_tf\<rparr>;
              env = env\<lparr>env_tf := (env_tf env)\<lparr>tf_ds := GD_KD kc OR 0\<rparr>\<rparr>;
              env = env\<lparr>env_tf := (env_tf env)\<lparr>tf_es := GD_KD kc OR 0\<rparr>\<rparr>;
              env = env\<lparr>env_tf := (env_tf env)\<lparr>tf_ss := GD_KD kc OR 0\<rparr>\<rparr>;
              env = env\<lparr>env_tf := (env_tf env)\<lparr>tf_cs := GD_KT kc OR 0\<rparr>\<rparr>;
              env = env\<lparr>env_tf := (env_tf env)\<lparr>tf_rsp := stack_top s\<rparr>\<rparr>;
              env = env\<lparr>env_tf := (env_tf env)\<lparr>tf_rflags := FL_IF kc OR FL_IOPL_0 kc\<rparr>\<rparr>
          in (Inr e,
              s\<lparr>envs := (envs s)[e := env],
                stack_top := stack_top s - USTACKSIZE kc,
                env_free_list := env_link env\<rparr>))"

definition env_free :: "kstate \<Rightarrow> nat \<Rightarrow> kstate" where
  "env_free s e =
     s\<lparr>envs := (envs s)[e := (envs s ! e)\<lparr>env_status := ENV_FREE, env_link := env_free_list s\<rparr>],
       env_free_list := Some e\<rparr>"

text \<open>
  How a call ends. \<open>env_pop_tf\<close> is \<open>_Noreturn\<close>: it leaves the kernel with the given
  trap frame. Modelled from the spec: \<open>sched_yield\<close> (kern/sched.c, not part of the sources
  at hand) hands control to the external scheduler and does not return to its caller, so a
  call of it ends the function that makes it, in the state reached.
\<close>

datatype control = Returns kstate | SchedYield kstate | PopTf kstate Trapframe

definition env_destroy :: "kstate \<Rightarrow> nat \<Rightarrow> control" where
  "env_destroy s e =
     (let s1 = s\<lparr>envs := (envs s)[e := (envs s ! e)\<lparr>env_status := ENV_DYING\<rparr>]\<rparr>
      in if Some e = curenv s1 then SchedYield (env_free s1 e) else Returns s1)"

text \<open>
  The first half of \<open>env_run\<close>, up to \<open>curenv = env\<close>: \<open>Inl\<close> when it ends in
  \<open>sched_yield\<close>, \<open>Inr\<close> when the function goes on.
\<close>

definition env_run_prev :: "kstate \<Rightarrow> nat \<Rightarrow> kstate + kstate" where
  "env_run_prev s e =
     (case curenv s of
        None \<Rightarrow> Inr s
      | Some c \<Rightarrow>
          if env_status (envs s ! c) = ENV_DYING then
            (let old = c; s1 = env_free s c in if old = e then Inl s1 else Inr s1)
          else if env_status (envs s ! c) = ENV_RUNNING then
            Inr (s\<lparr>envs := (envs s)[c := (envs s ! c)\<lparr>env_status := ENV_RUNNABLE\<rparr>]\<rparr>)
          else Inr s)"

definition env_run :: "kstate \<Rightarrow> nat \<Rightarrow> control" where
  "env_run s e =
     (case env_run_prev s e of
        Inl s1 \<Rightarrow> SchedYield s1
      | Inr s1 \<Rightarrow>
          let s2 = s1\<lparr>curenv := Some e\<rparr>;
              s3 = s2\<lparr>envs := (envs s2)[e := (envs s2 ! e)\<lparr>env_status := ENV_RUNNING\<rparr>]\<rparr>;
              s4 = s3\<lparr>envs := (envs s3)[e := (envs s3 ! e)\<lparr>env_runs := env_runs (envs s3 ! e) + 1\<rparr>]\<rparr>
          in PopTf s4 (env_tf (envs s4 ! e)))"

subsection \<open>The table at boot, and a slot reused over and over\<close>

text \<open>
  At boot the table is static storage, all zero (\<open>ENV_FREE\<close> is status 0, the index of
  "FREE" in the name table of \<open>env_run\<close>), \<open>curenv\<close> is NULL, \<open>stack_top\<close> is
  \<open>0x2000000\<close>, and \<open>env_init\<close> has run.
\<close>

definition blank_env :: Env where
  "blank_env = \<lparr>env_tf = zero_tf, env_link = None, env_id = 0, env_parent_id = 0,
     env_type = 0, env_status = ENV_FREE, env_runs = 0\<rparr>"

definition boot_state :: "nat \<Rightarrow> kstate" where
  "boot_state n =
     env_init \<lparr>envs = replicate n blank_env, env_free_list = None, curenv = None,
       stack_top = 0x2000000\<rparr>"

definition ex_kc :: kconsts where
  "ex_kc = \<lparr>GD_KD = 0x10, GD_KT = 0x08, FL_IF = 0x200, FL_IOPL_0 = 0,
     USTACKSIZE = 0x2000, UTOP = 0x8000000000\<rparr>"

text \<open>One allocation, and the environment it returned freed again.\<close>

definition reuse_slot :: "kconsts \<Rightarrow> kstate \<Rightarrow> kstate" where
  "reuse_slot kc s =
     (case env_alloc kc s 0 0 of
        (Inl err, s') \<Rightarrow> s'
      | (Inr e, s') \<Rightarrow> env_free s' e)"

text \<open>The table after boot and one allocation: slot 0 holds an environment.\<close>

definition ex_state :: kstate where
  "ex_state = snd (env_alloc ex_kc (boot_state 2) 0 0)"

section \<open>ELF loading (kern/env.c)\<close>

text \<open>
  Memory is flat and byte-addressed: a function from 64-bit addresses to bytes. A pointer
  is its address, and pointer arithmetic is the machine's, modulo \<open>2 ^ 64\<close>. Multi-byte
  fields are little-endian.
\<close>

type_synonym mem = "64 word \<Rightarrow> 8 word"

definition rd16 :: "mem \<Rightarrow> 64 word \<Rightarrow> 16 word" where
  "rd16 m a = ucast (m a) OR push_bit 8 (ucast (m (a + 1)))"

definition rd32 :: "mem \<Rightarrow> 64 word \<Rightarrow> 32 word" where
  "rd32 m a = ucast (rd16 m a) OR push_bit 16 (ucast (rd16 m (a + 2)))"

definition rd64 :: "mem \<Rightarrow> 64 word \<Rightarrow> 64 word" where
  "rd64 m a = ucast (rd32 m a) OR push_bit 32 (ucast (rd32 m (a + 4)))"

text \<open>
  Modelled from the spec: \<open>memcpy\<close>, \<open>memset\<close> and \<open>strcmp\<close> (lib/string.c, not part of
  the sources at hand) copy file bytes to the destination, fill with a byte, and compare
  NUL-terminated strings. \<open>memcpy m dst src n\<close> is the memory after copying the \<open>n\<close> bytes
  that \<open>m\<close> holds at \<open>src\<close> to \<open>dst\<close>; \<open>memcpy_val\<close> copies the eight bytes of a local
  64-bit variable; \<open>strcmp_lit\<close> is \<open>strcmp(lit, p) == 0\<close> for the bytes of a string
  literal.
\<close>

definition memcpy :: "mem \<Rightarrow> 64 word \<Rightarrow> 64 word \<Rightarrow> 64 word \<Rightarrow> mem" where
  "memcpy m dst src n = (\<lambda>a. if a - dst < n then m (src + (a - dst)) else m a)"

definition memset :: "mem \<Rightarrow> 64 word \<Rightarrow> 8 word \<Rightarrow> 64 word \<Rightarrow> mem" where
  "memset m dst c n = (\<lambda>a. if a - dst < n then c else m a)"

definition memcpy_val :: "mem \<Rightarrow> 64 word \<Rightarrow> 64 word \<Rightarrow> mem" where
  "memcpy_val m dst v = (\<lambda>a. if a - dst < 8 then ucast (drop_bit (8 * unat (a - dst)) v) else m a)"

fun strcmp_lit :: "8 word list \<Rightarrow> mem \<Rightarrow> 64 word \<Rightarrow> bool" where
  "strcmp_lit [] m p = (m p = 0)"
| "strcmp_lit (c # cs) m p = (m p = c \<and> strcmp_lit cs m (p + 1))"

text \<open>The bytes of the literal \<open>".strtab"\<close>.\<close>

definition dot_strtab :: "8 word list" where
  "dot_strtab = [0x2E, 0x73, 0x74, 0x72, 0x74, 0x61, 0x62]"

text \<open>
  Modelled from the spec: the structures and constants of inc/elf.h (not part of the
  sources at hand) are those of standard 64-bit little-endian ELF: the header \<open>struct Elf\<close>
  (64 bytes), \<open>struct Secthdr\<close> (64 bytes), \<open>struct Proghdr\<close> (56 bytes) and
  \<open>struct Elf64_Sym\<close> (24 bytes), each field at its standard offset.
\<close>

definition sizeof_Elf :: "64 word" where "sizeof_Elf = 64"
definition sizeof_Secthdr :: "64 word" where "sizeof_Secthdr = 64"
definition sizeof_Proghdr :: "64 word" where "sizeof_Proghdr = 56"
definition sizeof_Sym :: "64 word" where "sizeof_Sym = 24"

definition ELF_MAGIC :: "32 word" where "ELF_MAGIC = 0x464C457F"
definition ET_EXEC :: "16 word" where "ET_EXEC = 2"
definition ELF_PROG_LOAD :: "32 word" where "ELF_PROG_LOAD = 1"
definition ELF_SHT_SYMTAB :: "32 word" where "ELF_SHT_SYMTAB = 2"
definition ELF_SHT_STRTAB :: "32 word" where "ELF_SHT_STRTAB = 3"
definition STB_GLOBAL :: "8 word" where "STB_GLOBAL = 1"
definition STT_OBJECT :: "8 word" where "STT_OBJECT = 1"
definition STV_DEFAULT :: "8 word" where "STV_DEFAULT = 0"

definition ELF64_ST_BIND :: "8 word \<Rightarrow> 8 word" where "ELF64_ST_BIND i = drop_bit 4 i"
definition ELF64_ST_TYPE :: "8 word \<Rightarrow> 8 word" where "ELF64_ST_TYPE i = i AND 0xf"

definition e_magic :: "mem \<Rightarrow> 64 word \<Rightarrow> 32 word" where "e_magic m elf = rd32 m elf"
definition e_elf :: "mem \<Rightarrow> 64 word \<Rightarrow> 64 word \<Rightarrow> 8 word" where "e_elf m elf k = m (elf + 4 + k)"
definition e_type :: "mem \<Rightarrow> 64 word \<Rightarrow> 16 word" where "e_type m elf = rd16 m (elf + 16)"
definition e_machine :: "mem \<Rightarrow> 64 word \<Rightarrow> 16 word" where "e_machine m elf = rd16 m (elf + 18)"
definition e_entry :: "mem \<Rightarrow> 64 word \<Rightarrow> 64 word" where "e_entry m elf = rd64 m (elf + 24)"
definition e_phoff :: "mem \<Rightarrow> 64 word \<Rightarrow> 64 word" where "e_phoff m elf = rd64 m (elf + 32)"
definition e_shoff :: "mem \<Rightarrow> 64 word \<Rightarrow> 64 word" where "e_shoff m elf = rd64 m (elf + 40)"
definition e_ehsize :: "mem \<Rightarrow> 64 word \<Rightarrow> 16 word" where "e_ehsize m elf = rd16 m (elf + 52)"
definition e_phentsize :: "mem \<Rightarrow> 64 word \<Rightarrow> 16 word" where "e_phentsize m elf = rd16 m (elf + 54)"
definition e_phnum :: "mem \<Rightarrow> 64 word \<Rightarrow> 16 word" where "e_phnum m elf = rd16 m (elf + 56)"
definition e_shentsize :: "mem \<Rightarrow> 64 word \<Rightarrow> 16 word" where "e_shentsize m elf = rd16 m (elf + 58)"
definition e_shnum :: "mem \<Rightarrow> 64 word \<Rightarrow> 16 word" where "e_shnum m elf = rd16 m (elf + 60)"
definition e_shstrndx :: "mem \<Rightarrow> 64 word \<Rightarrow> 16 word" where "e_shstrndx m elf = rd16 m (elf + 62)"

definition sh_name :: "mem \<Rightarrow> 64 word \<Rightarrow> 32 word" where "sh_name m sh = rd32 m sh"
definition sh_type :: "mem \<Rightarrow> 64 word \<Rightarrow> 32 word" where "sh_type m sh = rd32 m (sh + 4)"
definition sh_offset :: "mem \<Rightarrow> 64 word \<Rightarrow> 64 word" where "sh_offset m sh = rd64 m (sh + 24)"
definition sh_size :: "mem \<Rightarrow> 64 word \<Rightarrow> 64 word" where "sh_size m sh = rd64 m (sh + 32)"
definition sh_entsize :: "mem \<Rightarrow> 64 word \<Rightarrow> 64 word" where "sh_entsize m sh = rd64 m (sh + 56)"

definition p_type :: "mem \<Rightarrow> 64 word \<Rightarrow> 32 word" where "p_type m ph = rd32 m ph"
definition p_offset :: "mem \<Rightarrow> 64 word \<Rightarrow> 64 word" where "p_offset m ph = rd64 m (ph + 8)"
definition p_va :: "mem \<Rightarrow> 64 word \<Rightarrow> 64 word" where "p_va m ph = rd64 m (ph + 16)"
definition p_filesz :: "mem \<Rightarrow> 64 word \<Rightarrow> 64 word" where "p_filesz m ph = rd64 m (ph + 32)"
definition p_memsz :: "mem \<Rightarrow> 64 word \<Rightarrow> 64 word" where "p_memsz m ph = rd64 m (ph + 40)"

definition st_name :: "mem \<Rightarrow> 64 word \<Rightarrow> 32 word" where "st_name m sy = rd32 m sy"
definition st_info :: "mem \<Rightarrow> 64 word \<Rightarrow> 8 word" where "st_info m sy = m (sy + 4)"
definition st_other :: "mem \<Rightarrow> 64 word \<Rightarrow> 8 word" where "st_other m sy = m (sy + 5)"
definition st_value :: "mem \<Rightarrow> 64 word \<Rightarrow> 64 word" where "st_value m sy = rd64 m (sy + 8)"
definition st_size :: "mem \<Rightarrow> 64 word \<Rightarrow> 64 word" where "st_size m sy = rd64 m (sy + 16)"

text \<open>
  One pass of the body of the segment loop of \<open>load_icode\<close> for the program header at
  \<open>p\<close>, after \<open>min_addr\<close> and \<open>max_addr\<close> have been updated: the two range checks, then
  \<open>memcpy\<close> and \<open>memset\<close>.
\<close>

definition load_segment :: "64 word \<Rightarrow> mem \<Rightarrow> 64 word \<Rightarrow> 64 word \<Rightarrow> 64 word \<Rightarrow> error + mem" where
  "load_segment utop m binary sz p =
     (let src = binary + p_offset m p;
          dst = p_va m p;
          memsz = p_memsz m p;
          filesz = min (p_filesz m p) memsz
      in if src + filesz > binary + sz then Inl E_INVALID_EXE
         else if dst + memsz > utop then Inl E_INVALID_EXE
         else Inr (memset (memcpy m dst src filesz) (dst + filesz) 0 (memsz - filesz)))"

text \<open>
  The segment loop, from index \<open>i\<close> on. It returns the memory it leaves and the final
  \<open>min_addr\<close> and \<open>max_addr\<close>. Each iteration reads \<open>elf->e_phnum\<close> and \<open>ph[i]\<close> from the
  memory as the previous iterations left it.
\<close>

function load_segments ::
  "64 word \<Rightarrow> 64 word \<Rightarrow> 64 word \<Rightarrow> 64 word \<Rightarrow> nat \<Rightarrow> mem \<Rightarrow> 64 word \<Rightarrow> 64 word
     \<Rightarrow> (error + unit) \<times> mem \<times> 64 word \<times> 64 word" where
  "load_segments utop binary sz ph i m min_addr max_addr =
     (if i < unat (e_phnum m binary) then
        (let p = ph + sizeof_Proghdr * word_of_nat i in
         if p_type m p = ELF_PROG_LOAD then
           (let min_addr = min min_addr (p_va m p);
                max_addr = max max_addr (p_va m p + p_memsz m p)
            in case load_segment utop m binary sz p of
                 Inl err \<Rightarrow> (Inl E_INVALID_EXE, m, min_addr, max_addr)
               | Inr m' \<Rightarrow> load_segments utop binary sz ph (Suc i) m' min_addr max_addr)
         else load_segments utop binary sz ph (Suc i) m min_addr max_addr)
      else (Inr (), m, min_addr, max_addr))"
  by pat_completeness auto
termination
proof -
  have b: "i < unat x \<Longrightarrow> 65535 - i < 65536 - i" for i and x :: "16 word"
    using unsigned_less [of x, where ?'a = nat] by simp
  show ?thesis
    by (relation "measure (\<lambda>(utop, binary, sz, ph, i, m, min_addr, max_addr). 65536 - i)")
      (auto intro: b)
qed

text \<open>
  \<open>find_function\<close> (kern/kdebug.c) is the external debug-symbol resolver: it is given a
  pointer to a name and returns the address of the kernel function of that name, or 0. It
  is a parameter \<open>ff\<close> of \<open>bind_functions\<close>, applied to the memory and the pointer.
\<close>

type_synonym resolver = "mem \<Rightarrow> 64 word \<Rightarrow> 64 word"

text \<open>
  The first loop of \<open>bind_functions\<close>, from section \<open>i\<close> on: the index of the section
  named \<open>".strtab"\<close>, \<open>None\<close> when the loop ends without one (\<open>strtab == -1UL\<close>).
\<close>

function find_strtab :: "mem \<Rightarrow> 64 word \<Rightarrow> 64 word \<Rightarrow> 64 word \<Rightarrow> nat \<Rightarrow> error + nat option" where
  "find_strtab m binary sh shstr i =
     (if i < unat (e_shnum m binary) then
        (if ucast (sh_name m (sh + sizeof_Secthdr * word_of_nat i))
              > sh_size m (sh + sizeof_Secthdr * ucast (e_shstrndx m binary))
         then Inl E_INVALID_EXE
         else if sh_type m (sh + sizeof_Secthdr * word_of_nat i) = ELF_SHT_STRTAB
                 \<and> strcmp_lit dot_strtab m
                      (shstr + ucast (sh_name m (sh + sizeof_Secthdr * word_of_nat i)))
         then Inr (Some i)
         else find_strtab m binary sh shstr (Suc i))
      else Inr None)"
  by pat_completeness auto
termination
proof -
  have b: "i < unat x \<Longrightarrow> 65535 - i < 65536 - i" for i and x :: "16 word"
    using unsigned_less [of x, where ?'a = nat] by simp
  show ?thesis
    by (relation "measure (\<lambda>(m, binary, sh, shstr, i). 65536 - i)")
      (auto intro: b)
qed

text \<open>
  The body of the symbol loop for the symbol at \<open>sy\<close>. \<open>strtab_sh\<close> is the address of
  \<open>sh[strtab]\<close>. A symbol that is bound has the eight bytes at its value overwritten with
  the resolved address.
\<close>

definition bind_symbol ::
  "resolver \<Rightarrow> mem \<Rightarrow> 64 word \<Rightarrow> 64 word \<Rightarrow> 64 word \<Rightarrow> 64 word \<Rightarrow> 64 word \<Rightarrow> error + mem" where
  "bind_symbol ff m strings strtab_sh image_start image_end sy =
     (if ELF64_ST_BIND (st_info m sy) = STB_GLOBAL
         \<and> ELF64_ST_TYPE (st_info m sy) = STT_OBJECT
         \<and> st_other m sy = STV_DEFAULT
         \<and> st_size m sy = 8
      then
        (let name = strings + ucast (st_name m sy) in
         if name > strings + sh_size m strtab_sh then Inl E_INVALID_EXE
         else if st_value m sy < image_start \<or> st_value m sy > image_end then Inl E_INVALID_EXE
         else
           (let addr = ff m name in
            if addr \<noteq> 0 then Inr (memcpy_val m (st_value m sy) addr) else Inr m))
      else Inr m)"

function bind_symbols ::
  "resolver \<Rightarrow> 64 word \<Rightarrow> 64 word \<Rightarrow> 64 word \<Rightarrow> 64 word \<Rightarrow> 64 word \<Rightarrow> 64 word \<Rightarrow> nat \<Rightarrow> mem
     \<Rightarrow> (error + unit) \<times> mem" where
  "bind_symbols ff strings strtab_sh image_start image_end syms nsyms j m =
     (if j < unat nsyms then
        (case bind_symbol ff m strings strtab_sh image_start image_end
                (syms + sizeof_Sym * word_of_nat j) of
           Inl err \<Rightarrow> (Inl E_INVALID_EXE, m)
         | Inr m' \<Rightarrow> bind_symbols ff strings strtab_sh image_start image_end syms nsyms (Suc j) m')
      else (Inr (), m))"
  by pat_completeness auto
termination
  by (relation "measure (\<lambda>(ff, strings, strtab_sh, image_start, image_end, syms, nsyms, j, m).
        unat nsyms - j)") auto

text \<open>The second loop of \<open>bind_functions\<close>, over the sections, from section \<open>i\<close> on.\<close>

function bind_sections ::
  "resolver \<Rightarrow> 64 word \<Rightarrow> 64 word \<Rightarrow> 64 word \<Rightarrow> 64 word \<Rightarrow> 64 word \<Rightarrow> 64 word \<Rightarrow> 64 word \<Rightarrow> nat
     \<Rightarrow> mem \<Rightarrow> (error + unit) \<times> mem" where
  "bind_sections ff binary sz sh strings strtab_sh image_start image_end i m =
     (if i < unat (e_shnum m binary) then
        (let s = sh + sizeof_Secthdr * word_of_nat i in
         if sh_type m s = ELF_SHT_SYMTAB then
           (let syms = binary + sh_offset m s in
            if sh_offset m s + sh_size m s > sz then (Inl E_INVALID_EXE, m)
            else if sh_entsize m s \<noteq> sizeof_Sym then (Inl E_INVALID_EXE, m)
            else
              (let nsyms = sh_size m s div sizeof_Sym in
               case bind_symbols ff strings strtab_sh image_start image_end syms nsyms 0 m of
                 (Inl err, m') \<Rightarrow> (Inl E_INVALID_EXE, m')
               | (Inr u, m') \<Rightarrow>
                   bind_sections ff binary sz sh strings strtab_sh image_start image_end (Suc i) m'))
         else bind_sections ff binary sz sh strings strtab_sh image_start image_end (Suc i) m)
      else (Inr (), m))"
  by pat_completeness auto
termination
proof -
  have b: "i < unat x \<Longrightarrow> 65535 - i < 65536 - i" for i and x :: "16 word"
    using unsigned_less [of x, where ?'a = nat] by simp
  show ?thesis
    by (relation "measure (\<lambda>(ff, binary, sz, sh, strings, strtab_sh, image_start, image_end, i, m).
        65536 - i)")
      (auto intro: b)
qed

definition bind_functions ::
  "resolver \<Rightarrow> mem \<Rightarrow> 64 word \<Rightarrow> 64 word \<Rightarrow> 64 word \<Rightarrow> 64 word \<Rightarrow> (error + unit) \<times> mem" where
  "bind_functions ff m binary sz image_start image_end =
     (let sh = binary + e_shoff m binary;
          shstr_sh = sh + sizeof_Secthdr * ucast (e_shstrndx m binary);
          shstr = binary + sh_offset m shstr_sh
      in if shstr + sh_size m shstr_sh > binary + sz then (Inl E_INVALID_EXE, m)
         else
           (case find_strtab m binary sh shstr 0 of
              Inl err \<Rightarrow> (Inl E_INVALID_EXE, m)
            | Inr None \<Rightarrow> (Inr (), m)
            | Inr (Some strtab) \<Rightarrow>
                (let strtab_sh = sh + sizeof_Secthdr * word_of_nat strtab;
                     strings = binary + sh_offset m strtab_sh
                 in if strings + sh_size m strtab_sh > binary + sz then (Inl E_INVALID_EXE, m)
                    else if sh_size m strtab_sh = 0 then (Inl E_INVALID_EXE, m)
                    else if m (binary + (sh_offset m strtab_sh + sh_size m strtab_sh - 1)) \<noteq> 0
                      then (Inl E_INVALID_EXE, m)
                    else bind_sections ff binary sz sh strings strtab_sh image_start image_end 0 m)))"

text \<open>
  \<open>load_icode\<close> returns its return value, the environment (of which it writes only the
  saved instruction pointer) and the memory it leaves.
\<close>

definition load_icode ::
  "kconsts \<Rightarrow> resolver \<Rightarrow> Env \<Rightarrow> mem \<Rightarrow> 64 word \<Rightarrow> 64 word \<Rightarrow> (error + unit) \<times> Env \<times> mem" where
  "load_icode kc ff env m binary sz =
     (if sz < sizeof_Elf then (Inl E_INVALID_EXE, env, m)
      else if e_magic m binary \<noteq> ELF_MAGIC
              \<or> e_elf m binary 0 \<noteq> 2
              \<or> e_elf m binary 1 \<noteq> 1
              \<or> e_elf m binary 2 \<noteq> 1
              \<or> e_type m binary \<noteq> ET_EXEC
              \<or> e_machine m binary \<noteq> 0x3E
        then (Inl E_INVALID_EXE, env, m)
      else if ucast (e_ehsize m binary) < sizeof_Elf then (Inl E_INVALID_EXE, env, m)
      else if ucast (e_shentsize m binary) \<noteq> sizeof_Secthdr then (Inl E_INVALID_EXE, env, m)
      else if ucast (e_phentsize m binary) \<noteq> sizeof_Proghdr then (Inl E_INVALID_EXE, env, m)
      else if e_shstrndx m binary \<ge> e_shnum m binary then (Inl E_INVALID_EXE, env, m)
      else
        (let sh = binary + e_shoff m binary;
             shstr_sh = sh + sizeof_Secthdr * ucast (e_shstrndx m binary)
         in if sh + sizeof_Secthdr * ucast (e_shnum m binary) > binary + sz
              then (Inl E_INVALID_EXE, env, m)
            else if sh_type m shstr_sh \<noteq> ELF_SHT_STRTAB then (Inl E_INVALID_EXE, env, m)
            else if sh_offset m shstr_sh + sh_size m shstr_sh > sz then (Inl E_INVALID_EXE, env, m)
            else if sh_size m shstr_sh = 0 then (Inl E_INVALID_EXE, env, m)
            else if m (binary + (sh_offset m shstr_sh + sh_size m shstr_sh - 1)) \<noteq> 0
              then (Inl E_INVALID_EXE, env, m)
            else
              (let ph = binary + e_phoff m binary
               in if ph + sizeof_Proghdr * ucast (e_phnum m binary) > binary + sz
                    then (Inl E_INVALID_EXE, env, m)
                  else
                    (case load_segments (UTOP kc) binary sz ph 0 m (UTOP kc) 0 of
                       (Inl err, m', min_addr, max_addr) \<Rightarrow> (Inl E_INVALID_EXE, env, m')
                     | (Inr u, m', min_addr, max_addr) \<Rightarrow>
                         if max_addr \<le> min_addr \<or> max_addr \<ge> UTOP kc
                           then (Inl E_INVALID_EXE, env, m')
                         else if e_entry m' binary \<ge> max_addr \<or> e_entry m' binary < min_addr
                           then (Inl E_INVALID_EXE, env, m')
                         else
                           (let env' = env\<lparr>env_tf := (env_tf env)\<lparr>tf_rip := e_entry m' binary\<rparr>\<rparr>
                            in case bind_functions ff m' binary sz min_addr max_addr of
                                 (Inl err, m'') \<Rightarrow> (Inl E_INVALID_EXE, env', m'')
                               | (Inr u, m'') \<Rightarrow> (Inr (), env', m''))))))"


subsection \<open>Example images and symbol tables\<close>

text \<open>
  Memories that are zero but for the bytes given. \<open>mem_strwrap\<close> and \<open>mem_dstwrap\<close> hold
  ELF images at \<open>0x100000\<close>, of 184 and 240 bytes: an ELF64 header, one or two program
  headers at offset 64, and one section header (at offset 120 or 176), the section-name
  string table. In \<open>mem_strwrap\<close> that string table has offset \<open>0xFFFFFFFFFFFFFFFF\<close> and
  size 9; in \<open>mem_dstwrap\<close> the second segment has virtual address
  \<open>0xFFFFFFFFFFFFF000\<close> and memory size \<open>0x1000\<close>. The memories named \<open>loaded\<close> are
  what the segment loop leaves. \<open>mem_nostrtab\<close> holds a header with two sections, neither
  named \<open>".strtab"\<close>, the second with a name offset beyond the string table.
\<close>

definition zero_mem :: mem where "zero_mem = (\<lambda>a. 0)"

definition no_resolver :: resolver where
  "no_resolver m p = 0"

definition mem_strwrap :: mem where
  "mem_strwrap = zero_mem
     (0x100000 := 0x7F, 0x100001 := 0x45, 0x100002 := 0x4C, 0x100003 := 0x46,
      0x100004 := 2, 0x100005 := 1, 0x100006 := 1,
      0x100010 := 2, 0x100012 := 0x3E, 0x100014 := 1,
      0x10001A := 0x20,
      0x100020 := 64,
      0x100028 := 120,
      0x100034 := 64, 0x100036 := 56, 0x100038 := 1, 0x10003A := 64, 0x10003C := 1,
      0x100040 := 1,
      0x100052 := 0x20,
      0x100060 := 0x40,
      0x100069 := 0x10,
      0x100078 := 1, 0x10007C := 3,
      0x100090 := 0xFF, 0x100091 := 0xFF, 0x100092 := 0xFF, 0x100093 := 0xFF,
      0x100094 := 0xFF, 0x100095 := 0xFF, 0x100096 := 0xFF, 0x100097 := 0xFF,
      0x100098 := 9)"

definition mem_strwrap_loaded :: mem where
  "mem_strwrap_loaded = memset (memcpy mem_strwrap 0x200000 0x100000 0x40) 0x200040 0 0xFC0"

definition mem_dstwrap :: mem where
  "mem_dstwrap = zero_mem
     (0x100000 := 0x7F, 0x100001 := 0x45, 0x100002 := 0x4C, 0x100003 := 0x46,
      0x100004 := 2, 0x100005 := 1, 0x100006 := 1,
      0x100010 := 2, 0x100012 := 0x3E, 0x100014 := 1,
      0x10001A := 0x20,
      0x100020 := 64,
      0x100028 := 176,
      0x100034 := 64, 0x100036 := 56, 0x100038 := 2, 0x10003A := 64, 0x10003C := 1,
      0x100040 := 1,
      0x100052 := 0x20,
      0x100060 := 0x40,
      0x100069 := 0x10,
      0x100078 := 1,
      0x100089 := 0xF0, 0x10008A := 0xFF, 0x10008B := 0xFF, 0x10008C := 0xFF,
      0x10008D := 0xFF, 0x10008E := 0xFF, 0x10008F := 0xFF,
      0x100098 := 0x40,
      0x1000A1 := 0x10,
      0x1000B4 := 3,
      0x1000C8 := 7,
      0x1000D0 := 1)"

definition mem_dstwrap_1 :: mem where
  "mem_dstwrap_1 = memset (memcpy mem_dstwrap 0x200000 0x100000 0x40) 0x200040 0 0xFC0"

definition mem_dstwrap_loaded :: mem where
  "mem_dstwrap_loaded =
     memset (memcpy mem_dstwrap_1 0xFFFFFFFFFFFFF000 0x100000 0x40) 0xFFFFFFFFFFFFF040 0 0xFC0"

text \<open>
  A symbol table of three entries at \<open>0x300000\<close>: a GLOBAL OBJECT symbol of size 8 with
  value \<open>0x200010\<close>, one with value \<open>0x201000\<close>, and an entry that is all zero (a LOCAL
  symbol); the header of its string table, of size \<open>0x10\<close>, is at \<open>0x300100\<close>.
\<close>

definition mem_syms :: mem where
  "mem_syms = zero_mem
     (0x300000 := 1, 0x300004 := 0x11, 0x300008 := 0x10, 0x30000A := 0x20, 0x300010 := 8,
      0x300018 := 1, 0x30001C := 0x11, 0x300021 := 0x10, 0x300022 := 0x20, 0x300028 := 8,
      0x300048 := 1, 0x30004C := 0x11, 0x300052 := 0x40, 0x300058 := 8,
      0x300120 := 0x10)"


definition kernel_resolver :: resolver where
  "kernel_resolver m p = 0x8041600000"

section \<open>Identifier arithmetic\<close>

lemma ENVX_mask: "ENVX (2 ^ lg) envid = unat (envid AND mask lg)"
  by (simp add: ENVX_def mask_eq_decr_exp)

lemma ENVX_less: "ENVX (2 ^ lg) envid < 2 ^ lg"
  by (simp add: ENVX_mask unsigned_take_bit_eq flip: take_bit_eq_mask)

lemma and_not_mask_diff: "(x::'a::len word) AND NOT (mask n) = x - take_bit n x"
proof -
  have "(x AND NOT (mask n)) + take_bit n x = (x AND NOT (mask n)) OR take_bit n x"
    by (rule disjunctive_add_eq_or) (auto simp: bit_eq_iff bit_simps)
  also have "\<dots> = x"
    by (rule bit_eqI) (auto simp: bit_simps)
  finally show ?thesis by (metis add_diff_cancel_right')
qed

lemma take_bit_add_4096:
  assumes lg: "lg \<le> 12"
  shows "take_bit lg ((x::32 word) + 4096) = take_bit lg x"
proof -
  have z: "take_bit lg (4096 :: int) = 0"
  proof -
    have "(4096 :: int) = push_bit 12 1" by simp
    then show ?thesis using lg by (simp only: take_bit_push_bit) simp
  qed
  have "uint (take_bit lg (x + 4096)) = take_bit lg ((uint x + 4096) mod 2 ^ 32)"
    by (simp add: unsigned_take_bit_eq uint_word_ariths)
  also have "(uint x + 4096) mod 2 ^ 32 = take_bit 32 (uint x + 4096)"
    by (simp add: take_bit_eq_mod)
  also have "take_bit lg (take_bit 32 (uint x + 4096)) = take_bit lg (uint x + 4096)"
    using lg by (simp add: min_def)
  also have "\<dots> = take_bit lg (take_bit lg (uint x) + take_bit lg 4096)"
    by (simp only: take_bit_add)
  also have "\<dots> = uint (take_bit lg x)"
    by (simp add: z unsigned_take_bit_eq)
  finally show ?thesis by (simp only: word_uint_eq_iff)
qed

lemma raw_gen_add:
  "lg \<le> 12 \<Longrightarrow> raw_generation (2 ^ lg) old = (old AND NOT (mask lg)) + 4096"
  by (simp add: raw_generation_def ENVGENSHIFT_def and_not_mask_diff take_bit_add_4096
      flip: mask_eq_decr_exp)

lemma sint_add_4096: "0 < sint ((x::32 word) + 4096) \<Longrightarrow> sint (x + 4096) = sint x + 4096"
proof -
  assume pos: "0 < sint (x + 4096)"
  have eq: "sint (x + 4096) = signed_take_bit 31 (sint x + 4096)"
    by (simp add: sint_word_ariths)
  have lo: "- (2 ^ 31) \<le> sint x" and hi: "sint x < 2 ^ 31"
    using sint_ge [of x] sint_lt [of x] by simp_all
  show ?thesis
  proof (cases "sint x + 4096 < 2 ^ 31")
    case True
    then have "signed_take_bit 31 (sint x + 4096) = sint x + 4096"
      using lo by (simp add: signed_take_bit_int_eq_self)
    with eq show ?thesis by simp
  next
    case False
    then have "signed_take_bit 31 (sint x + 4096) \<le> sint x + 4096 - 2 ^ Suc 31"
      by (intro signed_take_bit_int_less_eq) simp
    with eq pos hi show ?thesis by simp
  qed
qed

lemma sint_pos_iff: "0 < sint (w::32 word) \<longleftrightarrow> w \<noteq> 0 \<and> \<not> bit w 31"
proof -
  have "bit w 31 \<longleftrightarrow> sint w < 0"
    using bit_last_iff [of w] by simp
  moreover have "sint w = 0 \<longleftrightarrow> w = 0"
    by (rule signed_eq_0_iff)
  ultimately show ?thesis by auto
qed

lemma not_bit_31_of_nat: "e < 2 ^ 31 \<Longrightarrow> \<not> bit (word_of_nat e :: 32 word) 31"
proof -
  assume "e < 2 ^ 31"
  then have "e div 2 ^ 31 = 0" by simp
  then have "\<not> bit e 31" by (simp add: bit_iff_odd)
  then show ?thesis by (simp add: bit_simps)
qed

lemma sint_pos_or: "0 < sint (g::32 word) \<Longrightarrow> e < 2 ^ 12 \<Longrightarrow> 0 < sint (g OR word_of_nat e)"
  by (simp add: sint_pos_iff bit_or_iff not_bit_31_of_nat or_eq_0_iff)

lemma envx_or:
  assumes "(g::32 word) AND mask lg = 0" and "e < 2 ^ lg" and "lg \<le> 12"
  shows "ENVX (2 ^ lg) (g OR word_of_nat e) = e"
proof -
  have "(g OR word_of_nat e) AND mask lg = (word_of_nat e :: 32 word) AND mask lg"
    using assms(1) by (simp add: bit.conj_disj_distrib2)
  also have "\<dots> = take_bit lg (word_of_nat e)"
    by (simp add: take_bit_eq_mask)
  also have "\<dots> = word_of_nat (take_bit lg e)"
    by (simp add: take_bit_of_nat)
  also have "take_bit lg e = e"
    using assms(2) by (simp add: take_bit_nat_eq_self)
  finally have "unat ((g OR word_of_nat e) AND mask lg) = unat (word_of_nat e :: 32 word)"
    by simp
  also have "\<dots> = e"
  proof -
    have "(2::nat) ^ lg \<le> 2 ^ 12" using assms(3) by (intro power_increasing) simp_all
    then have "e < 2 ^ 32" using assms(2) by simp
    then show ?thesis by (simp add: unat_of_nat take_bit_nat_eq_self)
  qed
  finally show ?thesis by (simp add: ENVX_mask)
qed

lemma blank_env_upd:
  "blank_env\<lparr>env_link := l, env_id := 0\<rparr> = blank_env\<lparr>env_link := l\<rparr>"
  "blank_env\<lparr>env_link := None\<rparr> = blank_env"
  "blank_env\<lparr>env_id := 0\<rparr> = blank_env"
  by (simp_all add: blank_env_def)

lemma boot_state_2:
  "boot_state 2 = \<lparr>envs = [blank_env\<lparr>env_link := Some 1\<rparr>, blank_env],
      env_free_list = Some 0, curenv = None, stack_top = 0x2000000\<rparr>"
  by (simp add: boot_state_def env_init_def NENV_def numeral_2_eq_2 blank_env_upd)

lemma next_gen_low: "lg \<le> 12 \<Longrightarrow> next_generation (2 ^ lg) old AND mask lg = 0"
proof -
  assume lg: "lg \<le> 12"
  have a: "(x AND NOT (mask lg)) AND mask lg = 0" for x :: "32 word"
    by (rule bit_eqI) (auto simp: bit_simps)
  have b: "(4096 :: 32 word) AND mask lg = 0"
  proof -
    have "take_bit lg (push_bit 12 1 :: 32 word) = 0"
      using lg by (simp only: take_bit_push_bit) simp
    then show ?thesis by (simp add: take_bit_eq_mask)
  qed
  show ?thesis
    using a b by (simp add: next_generation_def raw_generation_def Let_def ENVGENSHIFT_def
      flip: mask_eq_decr_exp)
qed

lemma next_gen_pos: "0 < sint (next_generation n old)"
  by (simp add: next_generation_def Let_def ENVGENSHIFT_def)

lemma gen_of_id:
  assumes "(g::32 word) AND mask lg = 0" and "e < 2 ^ lg" and "lg \<le> 12"
  shows "(g OR word_of_nat e) AND NOT (mask lg) = g"
proof -
  have "take_bit lg e = e" using assms(2) by (simp add: take_bit_nat_eq_self)
  then have "take_bit lg (word_of_nat e :: 32 word) = word_of_nat e"
    by (simp add: take_bit_of_nat)
  then have e: "(word_of_nat e :: 32 word) AND NOT (mask lg) = 0"
    by (simp add: and_not_mask_diff)
  have g: "g AND NOT (mask lg) = g"
    using assms(1) by (simp add: and_not_mask_diff take_bit_eq_mask)
  show ?thesis using e g by (simp add: bit.conj_disj_distrib2)
qed

lemma next_gen_neq:
  assumes lg: "lg \<le> 12"
  shows "next_generation (2 ^ lg) old \<noteq> old AND NOT (mask lg)"
proof
  assume eq: "next_generation (2 ^ lg) old = old AND NOT (mask lg)"
  let ?g = "old AND NOT (mask lg)"
  have raw: "raw_generation (2 ^ lg) old = ?g + 4096"
    using lg by (rule raw_gen_add)
  show False
  proof (cases "sint (?g + 4096) \<le> 0")
    case True
    then have "?g = 4096"
      using eq raw by (simp add: next_generation_def Let_def ENVGENSHIFT_def)
    with True show False by simp
  next
    case False
    then have "?g + 4096 = ?g"
      using eq raw by (simp add: next_generation_def Let_def)
    then show False by simp
  qed
qed

lemma Env_all_upd:
  "r\<lparr>env_link := a, env_id := b, env_parent_id := c, env_type := d, env_status := f,
      env_runs := g, env_tf := h\<rparr> =
   \<lparr>env_tf = h, env_link = a, env_id = b, env_parent_id = c, env_type = d, env_status = f,
      env_runs = g\<rparr>"
  by (cases r) simp

lemma env_alloc_free:
  assumes e: "e < NENV s"
  shows "env_alloc kc (env_free s e) parent_id type =
     (Inr e,
      s\<lparr>envs := (envs s)[e :=
             \<lparr>env_tf = \<lparr>tf_regs = zero_regs, tf_es = GD_KD kc, tf_ds = GD_KD kc, tf_rip = 0,
                        tf_cs = GD_KT kc, tf_rflags = FL_IF kc OR FL_IOPL_0 kc,
                        tf_rsp = stack_top s, tf_ss = GD_KD kc\<rparr>,
              env_link = env_free_list s,
              env_id = next_generation (NENV s) (env_id (envs s ! e)) OR word_of_nat e,
              env_parent_id = parent_id, env_type = type, env_status = ENV_RUNNABLE,
              env_runs = 0\<rparr>],
         stack_top := stack_top s - USTACKSIZE kc\<rparr>)"
  using e by (simp add: env_alloc_def env_free_def Let_def NENV_def zero_tf_def Env_all_upd)

lemma first_alloc:
  "env_alloc ex_kc (boot_state 2) 0 0 =
     (Inr 0,
      \<lparr>envs = [\<lparr>env_tf = \<lparr>tf_regs = zero_regs, tf_es = 0x10, tf_ds = 0x10, tf_rip = 0,
                        tf_cs = 0x08, tf_rflags = 0x200, tf_rsp = 0x2000000, tf_ss = 0x10\<rparr>,
                env_link = Some 1, env_id = 4096, env_parent_id = 0, env_type = 0,
                env_status = ENV_RUNNABLE, env_runs = 0\<rparr>, blank_env],
       env_free_list = Some 1, curenv = None, stack_top = 0x1FFE000\<rparr>)"
  by (simp add: boot_state_2 env_alloc_def Let_def NENV_def next_generation_def
      raw_generation_def ENVGENSHIFT_def ex_kc_def zero_tf_def blank_env_def)

lemma reuse_slot_step:
  assumes "env_free_list s = Some 0" and "NENV s = 2"
    and "env_id (envs s ! 0) = word_of_nat n * 4096" and "n < 524287"
  shows "env_free_list (reuse_slot kc s) = Some 0 \<and> NENV (reuse_slot kc s) = 2
    \<and> env_id (envs (reuse_slot kc s) ! 0) = word_of_nat (Suc n) * 4096"
proof -
  define k where "k = (n + 1) * 4096"
  have k: "0 < k" "k < 2 ^ 31" "even k"
    using assms(4) by (simp_all add: k_def)
  have n32: "(word_of_nat n :: 32 word) * 4096 + 4096 = word_of_nat k"
    by (simp add: k_def)
  have even: "(word_of_nat k :: 32 word) AND NOT 1 = word_of_nat k"
  proof -
    have "\<not> bit (word_of_nat k :: 32 word) 0"
      using k(3) by (simp add: bit_0)
    then show ?thesis
      by (intro bit_eqI) (auto simp: bit_simps bit_0)
  qed
  have pos: "0 < sint (word_of_nat k :: 32 word)"
  proof -
    have "k div 2 ^ 31 = 0" using k(2) by simp
    then have "\<not> bit k 31" by (simp add: bit_iff_odd)
    then have "\<not> bit (word_of_nat k :: 32 word) 31"
      by (simp add: bit_simps)
    moreover have "(word_of_nat k :: 32 word) \<noteq> 0"
    proof
      assume "(word_of_nat k :: 32 word) = 0"
      then have "2 ^ 32 dvd k" by (simp add: word_of_nat_eq_0_iff)
      then have "2 ^ 32 \<le> k" using k(1) by (rule dvd_imp_le)
      with k(2) show False by simp
    qed
    ultimately show ?thesis by (simp add: sint_pos_iff)
  qed
  have g: "next_generation 2 (word_of_nat n * 4096) = word_of_nat k"
    using pos even by (simp add: next_generation_def raw_generation_def Let_def ENVGENSHIFT_def n32)
  have "word_of_nat k = (word_of_nat (Suc n) :: 32 word) * 4096"
    by (simp add: k_def)
  with g have g': "next_generation 2 (word_of_nat n * 4096) = (word_of_nat (Suc n) :: 32 word) * 4096"
    by simp
  show ?thesis
    using assms(1,2,3) g'
    by (simp add: reuse_slot_def env_alloc_def env_free_def Let_def NENV_def)
qed

lemma reuse_slot_iter:
  "n \<le> 524287 \<Longrightarrow>
     env_free_list ((reuse_slot kc ^^ n) (boot_state 2)) = Some 0
     \<and> NENV ((reuse_slot kc ^^ n) (boot_state 2)) = 2
     \<and> env_id (envs ((reuse_slot kc ^^ n) (boot_state 2)) ! 0) = word_of_nat n * 4096"
proof (induction n)
  case 0
  show ?case by (simp add: boot_state_2 NENV_def blank_env_def)
next
  case (Suc n)
  then have "n < 524287" by simp
  with Suc show ?case
    using reuse_slot_step [of "(reuse_slot kc ^^ n) (boot_state 2)" n kc] by simp
qed

lemma ex_state_eq:
  "ex_state =
      \<lparr>envs = [\<lparr>env_tf = \<lparr>tf_regs = zero_regs, tf_es = 0x10, tf_ds = 0x10, tf_rip = 0,
                        tf_cs = 0x08, tf_rflags = 0x200, tf_rsp = 0x2000000, tf_ss = 0x10\<rparr>,
                env_link = Some 1, env_id = 4096, env_parent_id = 0, env_type = 0,
                env_status = ENV_RUNNABLE, env_runs = 0\<rparr>, blank_env],
       env_free_list = Some 1, curenv = None, stack_top = 0x1FFE000\<rparr>"
  by (simp add: ex_state_def first_alloc)

lemma env_run_go:
  assumes "env_run_prev s e = Inr s1" and "e < NENV s1"
  shows "env_run s e =
     PopTf (s1\<lparr>curenv := Some e,
              envs := (envs s1)[e := (envs s1 ! e)\<lparr>env_status := ENV_RUNNING,
                                     env_runs := env_runs (envs s1 ! e) + 1\<rparr>]\<rparr>)
       ((env_tf (envs s1 ! e)))"
  using assms by (simp add: env_run_def Let_def NENV_def)

section \<open>Lookup\<close>

text \<open>
  What \<open>envid2env\<close> does for a nonzero identifier, whenever it does not read through a null
  \<open>curenv\<close>: that read happens only when permission checking is requested, the slot is
  live and its identifier matches.
\<close>

lemma envid2env_nonzero:
  assumes "envid \<noteq> 0"
    and "NENV s = 2 ^ lg"
    and "need_check_perm \<and> env_status (envs s ! ENVX (NENV s) envid) \<noteq> ENV_FREE
           \<and> env_id (envs s ! ENVX (NENV s) envid) = envid \<longrightarrow> curenv s \<noteq> None"
  shows "ENVX (NENV s) envid < NENV s
    \<and> word_of_nat (ENVX (NENV s) envid) = envid AND mask lg
    \<and> envid2env s envid need_check_perm =
        (if env_status (envs s ! ENVX (NENV s) envid) = ENV_FREE
            \<or> env_id (envs s ! ENVX (NENV s) envid) \<noteq> envid
            \<or> (need_check_perm
                \<and> Some (ENVX (NENV s) envid) \<noteq> curenv s
                \<and> env_parent_id (envs s ! ENVX (NENV s) envid)
                    \<noteq> env_id (envs s ! the (curenv s)))
         then Some (Inl E_BAD_ENV, None)
         else Some (Inr (), Some (ENVX (NENV s) envid)))"
proof -
  have 1: "ENVX (NENV s) envid < NENV s"
    using assms(2) by (simp add: ENVX_less)
  have 2: "word_of_nat (ENVX (NENV s) envid) = envid AND mask lg"
    using assms(2) by (simp add: ENVX_mask)
  have 3: "envid2env s envid need_check_perm =
        (if env_status (envs s ! ENVX (NENV s) envid) = ENV_FREE
            \<or> env_id (envs s ! ENVX (NENV s) envid) \<noteq> envid
            \<or> (need_check_perm
                \<and> Some (ENVX (NENV s) envid) \<noteq> curenv s
                \<and> env_parent_id (envs s ! ENVX (NENV s) envid)
                    \<noteq> env_id (envs s ! the (curenv s)))
         then Some (Inl E_BAD_ENV, None)
         else Some (Inr (), Some (ENVX (NENV s) envid)))"
    using assms(1,3) by (auto simp: envid2env_def Let_def split: option.splits)
  from 1 2 3 show ?thesis by blast
qed

text \<open>
  The branches of \<open>envid2env\<close> on the table after boot and one allocation, with slot 1 or
  slot 0 current: the current environment itself, its child, an environment that is
  neither, a stale identifier and a FREE slot.
\<close>

lemma envid2env_examples:
  "envid2env (ex_state\<lparr>curenv := Some 0\<rparr>) 4096 True = Some (Inr (), Some 0)"
  "envid2env (ex_state\<lparr>curenv := Some 1\<rparr>) 4096 True = Some (Inr (), Some 0)"
  "envid2env (ex_state\<lparr>envs := (envs ex_state)[0 := (envs ex_state ! 0)\<lparr>env_parent_id := 5\<rparr>],
       curenv := Some 1\<rparr>) 4096 True = Some (Inl E_BAD_ENV, None)"
  "envid2env (ex_state\<lparr>envs := (envs ex_state)[0 := (envs ex_state ! 0)\<lparr>env_parent_id := 5\<rparr>],
       curenv := Some 1\<rparr>) 4096 False = Some (Inr (), Some 0)"
  "envid2env (ex_state\<lparr>curenv := Some 1\<rparr>) 8192 False = Some (Inl E_BAD_ENV, None)"
  "envid2env (ex_state\<lparr>curenv := Some 1\<rparr>) 4097 True = Some (Inl E_BAD_ENV, None)"
  "envid2env ex_state 8192 True = Some (Inl E_BAD_ENV, None)"
  "envid2env ex_state 4097 True = Some (Inl E_BAD_ENV, None)"
  by (simp_all add: envid2env_def ex_state_eq NENV_def ENVX_def blank_env_def Let_def)

text \<open>
  C1 fails on the code at one kind of input. After boot and one allocation there is no
  current environment, slot 0 is RUNNABLE and holds identifier 4096. Lookup of 4096 with
  permission checking passes the FREE and stale tests and then reads \<open>curenv->env_id\<close>
  through the null \<open>curenv\<close>: it returns neither \<open>-E_BAD_ENV\<close> nor success. Without
  permission checking the same lookup succeeds.
\<close>

theorem envid2env_null_curenv:
  "curenv ex_state = None
   \<and> ENVX (NENV ex_state) 4096 = 0
   \<and> env_status (envs ex_state ! 0) = ENV_RUNNABLE
   \<and> env_id (envs ex_state ! 0) = 4096
   \<and> envid2env ex_state 4096 True = None
   \<and> envid2env ex_state 4096 False = Some (Inr (), Some 0)"
  by (simp add: envid2env_def ex_state_eq NENV_def ENVX_def Let_def)

text \<open>
  C9. Identifier 0 never fails: \<open>envid2env\<close> returns 0 and stores \<open>curenv\<close>, whatever the
  permission flag; with no current environment the stored pointer is NULL.
\<close>

theorem envid2env_zero:
  "envid2env s 0 need_check_perm = Some (Inr (), curenv s)
   \<and> envid2env (s\<lparr>curenv := None\<rparr>) 0 need_check_perm = Some (Inr (), None)"
  by (simp add: envid2env_def)

section \<open>Allocation\<close>

text \<open>
  C3. \<open>env_alloc\<close> returns \<open>-E_NO_FREE_ENV\<close> exactly when the free list is empty, and then
  leaves the whole state as it was, so every lookup answers as before. When the free list
  has a head \<open>e\<close>, it returns slot \<open>e\<close>, which then holds the new identifier, the given parent
  identifier and type, status RUNNABLE, run count 0, and a trap frame that is zero except
  for the segment selectors \<open>GD_KD\<close> (ds, es, ss) and \<open>GD_KT\<close> (cs), the stack pointer taken
  from \<open>stack_top\<close>, and the flags \<open>FL_IF | FL_IOPL_0\<close>, which have the interrupt flag set;
  the free list advances to the slot's link and no other slot changes.
\<close>

theorem env_alloc_spec:
  "(fst (env_alloc kc s parent_id type) = Inl E_NO_FREE_ENV \<longleftrightarrow> env_free_list s = None)
   \<and> (env_free_list s = None \<longrightarrow>
        env_alloc kc s parent_id type = (Inl E_NO_FREE_ENV, s)
        \<and> envid2env (snd (env_alloc kc s parent_id type)) envid perm = envid2env s envid perm)
   \<and> (\<forall>e. env_free_list s = Some e \<and> e < NENV s \<longrightarrow>
        fst (env_alloc kc s parent_id type) = Inr e
        \<and> envs (snd (env_alloc kc s parent_id type)) ! e =
            \<lparr>env_tf = \<lparr>tf_regs = zero_regs, tf_es = GD_KD kc, tf_ds = GD_KD kc, tf_rip = 0,
                        tf_cs = GD_KT kc, tf_rflags = FL_IF kc OR FL_IOPL_0 kc,
                        tf_rsp = stack_top s, tf_ss = GD_KD kc\<rparr>,
              env_link = env_link (envs s ! e),
              env_id = next_generation (NENV s) (env_id (envs s ! e)) OR word_of_nat e,
              env_parent_id = parent_id, env_type = type, env_status = ENV_RUNNABLE,
              env_runs = 0\<rparr>
        \<and> (FL_IF kc OR FL_IOPL_0 kc) AND FL_IF kc = FL_IF kc
        \<and> env_free_list (snd (env_alloc kc s parent_id type)) = env_link (envs s ! e)
        \<and> stack_top (snd (env_alloc kc s parent_id type)) = stack_top s - USTACKSIZE kc
        \<and> curenv (snd (env_alloc kc s parent_id type)) = curenv s
        \<and> NENV (snd (env_alloc kc s parent_id type)) = NENV s
        \<and> (\<forall>i. i \<noteq> e \<longrightarrow> envs (snd (env_alloc kc s parent_id type)) ! i = envs s ! i))"
proof -
  have fail: "fst (env_alloc kc s parent_id type) = Inl E_NO_FREE_ENV \<longleftrightarrow> env_free_list s = None"
    by (simp add: env_alloc_def Let_def split: option.splits)
  have unchanged: "env_free_list s = None \<longrightarrow>
        env_alloc kc s parent_id type = (Inl E_NO_FREE_ENV, s)
        \<and> envid2env (snd (env_alloc kc s parent_id type)) envid perm = envid2env s envid perm"
    by (simp add: env_alloc_def)
  have ok: "fst (env_alloc kc s parent_id type) = Inr e
        \<and> envs (snd (env_alloc kc s parent_id type)) ! e =
            \<lparr>env_tf = \<lparr>tf_regs = zero_regs, tf_es = GD_KD kc, tf_ds = GD_KD kc, tf_rip = 0,
                        tf_cs = GD_KT kc, tf_rflags = FL_IF kc OR FL_IOPL_0 kc,
                        tf_rsp = stack_top s, tf_ss = GD_KD kc\<rparr>,
              env_link = env_link (envs s ! e),
              env_id = next_generation (NENV s) (env_id (envs s ! e)) OR word_of_nat e,
              env_parent_id = parent_id, env_type = type, env_status = ENV_RUNNABLE,
              env_runs = 0\<rparr>
        \<and> (FL_IF kc OR FL_IOPL_0 kc) AND FL_IF kc = FL_IF kc
        \<and> env_free_list (snd (env_alloc kc s parent_id type)) = env_link (envs s ! e)
        \<and> stack_top (snd (env_alloc kc s parent_id type)) = stack_top s - USTACKSIZE kc
        \<and> curenv (snd (env_alloc kc s parent_id type)) = curenv s
        \<and> NENV (snd (env_alloc kc s parent_id type)) = NENV s
        \<and> (\<forall>i. i \<noteq> e \<longrightarrow> envs (snd (env_alloc kc s parent_id type)) ! i = envs s ! i)"
    if "env_free_list s = Some e" and "e < NENV s" for e
    using that by (simp add: env_alloc_def Let_def NENV_def zero_tf_def word_bw_comms
        word_ao_absorbs)
  from fail unchanged ok show ?thesis by blast
qed

theorem env_alloc_spec_witness:
  "env_free_list (boot_state 2) = Some 0 \<and> 0 < NENV (boot_state 2)
   \<and> fst (env_alloc ex_kc (boot_state 2) 0 0) = Inr 0
   \<and> env_id (envs (snd (env_alloc ex_kc (boot_state 2) 0 0)) ! 0) = 4096
   \<and> env_status (envs (snd (env_alloc ex_kc (boot_state 2) 0 0)) ! 0) = ENV_RUNNABLE
   \<and> env_free_list ((boot_state 2)\<lparr>env_free_list := None\<rparr>) = None
   \<and> env_alloc ex_kc ((boot_state 2)\<lparr>env_free_list := None\<rparr>) 0 0
       = (Inl E_NO_FREE_ENV, (boot_state 2)\<lparr>env_free_list := None\<rparr>)"
proof -
  have h: "env_free_list (boot_state 2) = Some 0 \<and> 0 < NENV (boot_state 2)"
    by (simp add: boot_state_2 NENV_def)
  have n: "env_free_list ((boot_state 2)\<lparr>env_free_list := None\<rparr>) = None"
    by simp
  have g: "next_generation (NENV (boot_state 2)) (env_id (envs (boot_state 2) ! 0))
      OR word_of_nat 0 = 4096"
    by (simp add: boot_state_2 NENV_def next_generation_def raw_generation_def ENVGENSHIFT_def
        blank_env_def)
  show ?thesis
    using h n g
      env_alloc_spec [of ex_kc "boot_state 2" 0 0 0 False]
      env_alloc_spec [of ex_kc "(boot_state 2)\<lparr>env_free_list := None\<rparr>" 0 0 0 False]
    by simp
qed

text \<open>
  C2 (as amended). Let slot \<open>e\<close> of a table of \<open>2 ^ lg\<close> slots, \<open>lg \<le> 12\<close>, be freed and
  allocated again. The allocation returns slot \<open>e\<close>. Its new identifier is the generation,
  with the slot index in the low bits: the generation is the previous identifier plus
  \<open>1 << ENVGENSHIFT = 4096\<close> with the slot-index bits masked off, replaced by 4096 when
  that value is not positive. The new identifier is strictly positive and decodes to slot
  \<open>e\<close>. When no reset takes place the generation is the previous generation plus 4096; in
  every case it differs from the previous one. Lookup of the identifier the slot held before
  the reuse, and of every identifier of that slot whose generation differs from the new one,
  returns \<open>-E_BAD_ENV\<close> and stores NULL.
\<close>

theorem env_alloc_reuse:
  fixes s :: kstate and lg e :: nat and kc :: kconsts and parent_id :: envid_t and type :: "32 word"
  assumes nenv: "NENV s = 2 ^ lg" and lg: "lg \<le> 12" and e: "e < NENV s"
  defines "old \<equiv> env_id (envs s ! e)"
    and "s' \<equiv> snd (env_alloc kc (env_free s e) parent_id type)"
  defines "new \<equiv> env_id (envs s' ! e)"
  shows "fst (env_alloc kc (env_free s e) parent_id type) = Inr e
    \<and> new = (if sint ((old + 4096) AND NOT (mask lg)) \<le> 0 then 4096
              else (old + 4096) AND NOT (mask lg)) OR word_of_nat e
    \<and> 0 < sint new
    \<and> ENVX (NENV s') new = e
    \<and> env_status (envs s' ! e) = ENV_RUNNABLE
    \<and> (0 < sint ((old + 4096) AND NOT (mask lg)) \<longrightarrow>
          sint (new AND NOT (mask lg)) = sint (old AND NOT (mask lg)) + 4096)
    \<and> new AND NOT (mask lg) \<noteq> old AND NOT (mask lg)
    \<and> (old \<noteq> 0 \<and> ENVX (NENV s) old = e \<longrightarrow>
          envid2env s' old perm = Some (Inl E_BAD_ENV, None))
    \<and> (\<forall>oid. oid \<noteq> 0 \<and> ENVX (NENV s) oid = e
            \<and> oid AND NOT (mask lg) \<noteq> new AND NOT (mask lg) \<longrightarrow>
          envid2env s' oid perm = Some (Inl E_BAD_ENV, None))"
proof -
  let ?g = "next_generation (NENV s) old"
  have ret: "fst (env_alloc kc (env_free s e) parent_id type) = Inr e"
    using e by (simp add: env_alloc_free)
  have len: "NENV s' = NENV s"
    using e by (simp add: s'_def env_alloc_free NENV_def)
  have new: "new = ?g OR word_of_nat e"
    using e by (simp add: new_def s'_def old_def env_alloc_free NENV_def)
  have st: "env_status (envs s' ! e) = ENV_RUNNABLE"
    using e by (simp add: s'_def env_alloc_free NENV_def)
  have raw: "raw_generation (NENV s) old = (old + 4096) AND NOT (mask lg)"
    by (simp add: raw_generation_def nenv ENVGENSHIFT_def flip: mask_eq_decr_exp)
  have raw': "(old + 4096) AND NOT (mask lg) = (old AND NOT (mask lg)) + 4096"
    using raw_gen_add [OF lg, of old] raw nenv by simp
  have g: "?g = (if sint ((old + 4096) AND NOT (mask lg)) \<le> 0 then 4096
              else (old + 4096) AND NOT (mask lg))"
    by (simp add: next_generation_def Let_def raw ENVGENSHIFT_def)
  have e12: "e < 2 ^ 12"
  proof -
    have "(2::nat) ^ lg \<le> 2 ^ 12" using lg by (intro power_increasing) simp_all
    with e nenv show ?thesis by simp
  qed
  have low: "?g AND mask lg = 0"
    using next_gen_low [OF lg, of old] nenv by simp
  have pos: "0 < sint new"
    unfolding new using next_gen_pos e12 by (rule sint_pos_or)
  have envx: "ENVX (NENV s') new = e"
    unfolding new len nenv using low e lg nenv by (intro envx_or) simp_all
  have newg: "new AND NOT (mask lg) = ?g"
    unfolding new using low e lg nenv by (intro gen_of_id) simp_all
  have incr: "sint (new AND NOT (mask lg)) = sint (old AND NOT (mask lg)) + 4096"
    if "0 < sint ((old + 4096) AND NOT (mask lg))"
  proof -
    from that have "?g = (old AND NOT (mask lg)) + 4096"
      by (simp add: g raw')
    moreover from that have "0 < sint ((old AND NOT (mask lg)) + 4096)"
      by (simp add: raw')
    ultimately show ?thesis
      using sint_add_4096 [of "old AND NOT (mask lg)"] by (simp add: newg)
  qed
  have neq: "new AND NOT (mask lg) \<noteq> old AND NOT (mask lg)"
    using next_gen_neq [OF lg, of old] nenv by (simp add: newg)
  have stale: "envid2env s' oid perm = Some (Inl E_BAD_ENV, None)"
    if "oid \<noteq> 0" and "ENVX (NENV s) oid = e" and "oid \<noteq> new" for oid
    using that by (simp add: envid2env_def Let_def len new_def)
  have stale_old: "envid2env s' old perm = Some (Inl E_BAD_ENV, None)"
    if "old \<noteq> 0" and "ENVX (NENV s) old = e"
    using that neq by (intro stale) auto
  have stale_all: "envid2env s' oid perm = Some (Inl E_BAD_ENV, None)"
    if "oid \<noteq> 0" and "ENVX (NENV s) oid = e"
      and "oid AND NOT (mask lg) \<noteq> new AND NOT (mask lg)" for oid
    using that by (intro stale) auto
  have new2: "new = (if sint ((old + 4096) AND NOT (mask lg)) \<le> 0 then 4096
              else (old + 4096) AND NOT (mask lg)) OR word_of_nat e"
    using new g by simp
  from ret new2 pos envx st incr neq stale_old stale_all show ?thesis
    by blast
qed

theorem env_alloc_reuse_witness:
  "NENV ex_state = 2 ^ 1 \<and> (1::nat) \<le> 12 \<and> 0 < NENV ex_state
   \<and> env_id (envs ex_state ! 0) = 4096
   \<and> fst (env_alloc ex_kc (env_free ex_state 0) 0 0) = Inr 0
   \<and> env_id (envs (snd (env_alloc ex_kc (env_free ex_state 0) 0 0)) ! 0) = 8192
   \<and> envid2env (snd (env_alloc ex_kc (env_free ex_state 0) 0 0)) 4096 False
        = Some (Inl E_BAD_ENV, None)"
proof -
  have n: "NENV ex_state = 2 ^ 1" and l: "(1::nat) \<le> 12" and e: "0 < NENV ex_state"
    by (simp_all add: ex_state_eq NENV_def)
  have old: "env_id (envs ex_state ! 0) = 4096"
    by (simp add: ex_state_eq)
  have x: "ENVX (NENV ex_state) 4096 = 0"
    by (simp add: ex_state_eq NENV_def ENVX_def)
  show ?thesis
    using env_alloc_reuse [OF n l e, of ex_kc 0 0 False] n l e old x
    by (simp add: mask_eq_exp_minus_1)
qed

text \<open>
  C2 as stated fails where the generation wraps around. The first allocation after boot
  issues identifier 4096 for slot 0. After 524287 rounds of allocating and freeing, slot 0
  holds the identifier \<open>0x7FFFF000\<close>; the next allocation resets the generation and issues
  4096 again, and a lookup of 4096, an identifier issued earlier for that slot, succeeds.
\<close>

theorem env_alloc_reuse_counterexample:
  "fst (env_alloc ex_kc (boot_state 2) 0 0) = Inr 0
   \<and> env_id (envs (snd (env_alloc ex_kc (boot_state 2) 0 0)) ! 0) = 4096
   \<and> (reuse_slot ex_kc ^^ 1) (boot_state 2) = env_free (snd (env_alloc ex_kc (boot_state 2) 0 0)) 0
   \<and> env_id (envs ((reuse_slot ex_kc ^^ 524287) (boot_state 2)) ! 0) = 0x7FFFF000
   \<and> fst (env_alloc ex_kc ((reuse_slot ex_kc ^^ 524287) (boot_state 2)) 0 0) = Inr 0
   \<and> env_id (envs (snd (env_alloc ex_kc ((reuse_slot ex_kc ^^ 524287) (boot_state 2)) 0 0)) ! 0)
       = 4096
   \<and> envid2env (snd (env_alloc ex_kc ((reuse_slot ex_kc ^^ 524287) (boot_state 2)) 0 0))
         4096 False = Some (Inr (), Some 0)"
proof -
  let ?s = "(reuse_slot ex_kc ^^ 524287) (boot_state 2)"
  have s: "env_free_list ?s = Some 0" "NENV ?s = 2" "env_id (envs ?s ! 0) = 0x7FFFF000"
    using reuse_slot_iter [of 524287 ex_kc] by simp_all
  have g: "next_generation 2 0x7FFFF000 = 4096"
    by (simp add: next_generation_def raw_generation_def Let_def ENVGENSHIFT_def)
  have a: "fst (env_alloc ex_kc ?s 0 0) = Inr 0"
    using s(1) by (simp add: env_alloc_def Let_def)
  have b: "env_id (envs (snd (env_alloc ex_kc ?s 0 0)) ! 0) = 4096"
    using s g by (simp add: env_alloc_def Let_def NENV_def)
  have c: "envid2env (snd (env_alloc ex_kc ?s 0 0)) 4096 False = Some (Inr (), Some 0)"
    using s g by (simp add: envid2env_def env_alloc_def Let_def NENV_def ENVX_def)
  have d: "(reuse_slot ex_kc ^^ 1) (boot_state 2)
      = env_free (snd (env_alloc ex_kc (boot_state 2) 0 0)) 0"
    by (simp add: reuse_slot_def first_alloc)
  show ?thesis
    using a b c d s(3) by (simp add: first_alloc)
qed

section \<open>Destruction and dispatch\<close>

text \<open>
  C7. \<open>env_destroy\<close> sets the target's status to DYING. When the target is the current
  environment it is then freed (status FREE, pushed on the free list) and the call ends in
  \<open>sched_yield\<close>: it does not return to its caller. When the target is not the current
  environment the call returns, the target is DYING, no other slot is modified, the current
  environment's status and the rest of the state are as before.
\<close>

theorem env_destroy_spec:
  assumes e: "e < NENV s"
  shows "(curenv s = Some e \<longrightarrow>
            env_destroy s e =
              SchedYield (env_free (s\<lparr>envs := (envs s)[e := (envs s ! e)\<lparr>env_status := ENV_DYING\<rparr>]\<rparr>) e)
            \<and> (\<forall>s'. env_destroy s e \<noteq> Returns s')
            \<and> (\<forall>s'. env_destroy s e = SchedYield s' \<longrightarrow>
                  envs s' ! e = (envs s ! e)\<lparr>env_status := ENV_FREE, env_link := env_free_list s\<rparr>
                  \<and> env_free_list s' = Some e \<and> curenv s' = curenv s
                  \<and> (\<forall>i. i \<noteq> e \<longrightarrow> envs s' ! i = envs s ! i)))
       \<and> (curenv s \<noteq> Some e \<longrightarrow>
            env_destroy s e =
              Returns (s\<lparr>envs := (envs s)[e := (envs s ! e)\<lparr>env_status := ENV_DYING\<rparr>]\<rparr>)
            \<and> (\<forall>s'. env_destroy s e = Returns s' \<longrightarrow>
                  envs s' ! e = (envs s ! e)\<lparr>env_status := ENV_DYING\<rparr>
                  \<and> (\<forall>i. i \<noteq> e \<longrightarrow> envs s' ! i = envs s ! i)
                  \<and> (\<forall>c. curenv s = Some c \<longrightarrow>
                        env_status (envs s' ! c) = env_status (envs s ! c))
                  \<and> curenv s' = curenv s \<and> env_free_list s' = env_free_list s
                  \<and> stack_top s' = stack_top s \<and> NENV s' = NENV s))"
proof (cases "curenv s = Some e")
  case True
  let ?y = "env_free (s\<lparr>envs := (envs s)[e := (envs s ! e)\<lparr>env_status := ENV_DYING\<rparr>]\<rparr>) e"
  have d: "env_destroy s e = SchedYield ?y"
    using True by (simp add: env_destroy_def Let_def)
  have y: "envs ?y ! e = (envs s ! e)\<lparr>env_status := ENV_FREE, env_link := env_free_list s\<rparr>
      \<and> env_free_list ?y = Some e \<and> curenv ?y = curenv s
      \<and> (\<forall>i. i \<noteq> e \<longrightarrow> envs ?y ! i = envs s ! i)"
    using e by (simp add: env_free_def NENV_def)
  show ?thesis using True d y by simp
next
  case False
  let ?r = "s\<lparr>envs := (envs s)[e := (envs s ! e)\<lparr>env_status := ENV_DYING\<rparr>]\<rparr>"
  have d: "env_destroy s e = Returns ?r"
    using False by (simp add: env_destroy_def Let_def)
  have r: "envs ?r ! e = (envs s ! e)\<lparr>env_status := ENV_DYING\<rparr>
      \<and> (\<forall>i. i \<noteq> e \<longrightarrow> envs ?r ! i = envs s ! i)
      \<and> (\<forall>c. curenv s = Some c \<longrightarrow> env_status (envs ?r ! c) = env_status (envs s ! c))
      \<and> curenv ?r = curenv s \<and> env_free_list ?r = env_free_list s
      \<and> stack_top ?r = stack_top s \<and> NENV ?r = NENV s"
    using e False by (auto simp: NENV_def nth_list_update)
  show ?thesis using False d r by simp
qed

theorem env_destroy_spec_witness:
  "0 < NENV (ex_state\<lparr>curenv := Some 0\<rparr>)
   \<and> curenv (ex_state\<lparr>curenv := Some 0\<rparr>) = Some 0
   \<and> env_destroy (ex_state\<lparr>curenv := Some 0\<rparr>) 0
      = SchedYield (env_free
          (ex_state\<lparr>envs := (envs ex_state)[0 := (envs ex_state ! 0)\<lparr>env_status := ENV_DYING\<rparr>],
                     curenv := Some 0\<rparr>) 0)
   \<and> 0 < NENV ex_state \<and> curenv ex_state \<noteq> Some 0
   \<and> env_destroy ex_state 0
      = Returns (ex_state\<lparr>envs := (envs ex_state)[0 := (envs ex_state ! 0)\<lparr>env_status := ENV_DYING\<rparr>]\<rparr>)"
proof -
  have h: "0 < NENV (ex_state\<lparr>curenv := Some 0\<rparr>)" "0 < NENV ex_state"
    "curenv (ex_state\<lparr>curenv := Some 0\<rparr>) = Some 0" "curenv ex_state \<noteq> Some 0"
    by (simp_all add: ex_state_eq NENV_def)
  have a: "env_destroy (ex_state\<lparr>curenv := Some 0\<rparr>) 0
      = SchedYield (env_free
          ((ex_state\<lparr>curenv := Some 0\<rparr>)
             \<lparr>envs := (envs (ex_state\<lparr>curenv := Some 0\<rparr>))
                [0 := (envs (ex_state\<lparr>curenv := Some 0\<rparr>) ! 0)\<lparr>env_status := ENV_DYING\<rparr>]\<rparr>) 0)"
    using env_destroy_spec [OF h(1)] h(3) by blast
  have b: "env_destroy ex_state 0
      = Returns (ex_state\<lparr>envs := (envs ex_state)[0 := (envs ex_state ! 0)\<lparr>env_status := ENV_DYING\<rparr>]\<rparr>)"
    using env_destroy_spec [OF h(2)] h(4) by blast
  have c: "(ex_state\<lparr>curenv := Some 0\<rparr>)
             \<lparr>envs := (envs (ex_state\<lparr>curenv := Some 0\<rparr>))
                [0 := (envs (ex_state\<lparr>curenv := Some 0\<rparr>) ! 0)\<lparr>env_status := ENV_DYING\<rparr>]\<rparr>
      = ex_state\<lparr>envs := (envs ex_state)[0 := (envs ex_state ! 0)\<lparr>env_status := ENV_DYING\<rparr>],
                     curenv := Some 0\<rparr>"
    by simp
  show ?thesis
    using a b h unfolding c by (intro conjI)
qed

text \<open>
  C8. \<open>env_run\<close>: when the current environment is DYING and is the requested target, it is
  freed and the call ends in \<open>sched_yield\<close>; the target is not made RUNNING, its run counter
  is not incremented and \<open>curenv\<close> is not assigned. In every other case the call ends in
  \<open>env_pop_tf\<close> on the target's trap frame, with the target recorded as current, its status
  RUNNING and its run counter incremented; a previous current environment other than the
  target is FREE and on the free list if it was DYING, RUNNABLE if it was RUNNING, and
  keeps any other status; the slots that are neither the target nor the previous current
  environment are untouched.
\<close>

theorem env_run_spec:
  assumes e: "e < NENV s" and c: "\<forall>c. curenv s = Some c \<longrightarrow> c < NENV s"
  shows "(curenv s = Some e \<and> env_status (envs s ! e) = ENV_DYING \<longrightarrow>
            env_run s e = SchedYield (env_free s e)
            \<and> env_status (envs (env_free s e) ! e) = ENV_FREE
            \<and> env_runs (envs (env_free s e) ! e) = env_runs (envs s ! e)
            \<and> env_free_list (env_free s e) = Some e
            \<and> curenv (env_free s e) = curenv s)
       \<and> (\<not> (curenv s = Some e \<and> env_status (envs s ! e) = ENV_DYING) \<longrightarrow>
            (case env_run s e of
               PopTf s' tf \<Rightarrow>
                 curenv s' = Some e
                 \<and> env_status (envs s' ! e) = ENV_RUNNING
                 \<and> env_runs (envs s' ! e) = env_runs (envs s ! e) + 1
                 \<and> tf = env_tf (envs s' ! e) \<and> tf = env_tf (envs s ! e)
                 \<and> (\<forall>c. curenv s = Some c \<and> c \<noteq> e \<longrightarrow>
                       env_status (envs s' ! c) =
                         (if env_status (envs s ! c) = ENV_DYING then ENV_FREE
                          else if env_status (envs s ! c) = ENV_RUNNING then ENV_RUNNABLE
                          else env_status (envs s ! c))
                       \<and> env_free_list s' =
                         (if env_status (envs s ! c) = ENV_DYING then Some c else env_free_list s))
                 \<and> (\<forall>i. i \<noteq> e \<and> curenv s \<noteq> Some i \<longrightarrow> envs s' ! i = envs s ! i)
             | Returns s' \<Rightarrow> False
             | SchedYield s' \<Rightarrow> False))"
proof (cases "curenv s")
  case None
  then have p: "env_run_prev s e = Inr s" by (simp add: env_run_prev_def)
  show ?thesis
    using None e by (simp add: env_run_go [OF p e] NENV_def)
next
  case (Some c)
  then have cl: "c < NENV s" using c by simp
  consider (dying_self) "env_status (envs s ! c) = ENV_DYING" "c = e"
    | (dying_other) "env_status (envs s ! c) = ENV_DYING" "c \<noteq> e"
    | (running) "env_status (envs s ! c) = ENV_RUNNING"
    | (other) "env_status (envs s ! c) \<noteq> ENV_DYING" "env_status (envs s ! c) \<noteq> ENV_RUNNING"
    by blast
  then show ?thesis
  proof cases
    case dying_self
    then have "env_run s e = SchedYield (env_free s e)"
      using Some by (simp add: env_run_def env_run_prev_def Let_def)
    then show ?thesis
      using dying_self Some e by (simp add: env_free_def NENV_def)
  next
    case dying_other
    then have p: "env_run_prev s e = Inr (env_free s c)"
      using Some by (simp add: env_run_prev_def Let_def)
    have l: "e < NENV (env_free s c)" using e by (simp add: env_free_def NENV_def)
    show ?thesis
      using dying_other Some e cl
      by (simp add: env_run_go [OF p l] env_free_def NENV_def)
  next
    case running
    let ?s1 = "s\<lparr>envs := (envs s)[c := (envs s ! c)\<lparr>env_status := ENV_RUNNABLE\<rparr>]\<rparr>"
    have p: "env_run_prev s e = Inr ?s1"
      using running Some by (simp add: env_run_prev_def)
    have l: "e < NENV ?s1" using e by (simp add: NENV_def)
    show ?thesis
      using running Some e cl
      by (cases "c = e") (simp_all add: env_run_go [OF p l] NENV_def)
  next
    case other
    then have p: "env_run_prev s e = Inr s"
      using Some by (simp add: env_run_prev_def)
    show ?thesis
      using other Some e cl
      by (cases "c = e") (simp_all add: env_run_go [OF p e] NENV_def)
  qed
qed

theorem env_run_spec_witness:
  "0 < NENV ex_state \<and> curenv ex_state = None
   \<and> env_run ex_state 0 =
       PopTf (ex_state\<lparr>envs := (envs ex_state)
                 [0 := (envs ex_state ! 0)\<lparr>env_status := ENV_RUNNING, env_runs := 1\<rparr>],
               curenv := Some 0\<rparr>)
         (env_tf (envs ex_state ! 0))
   \<and> curenv (ex_state\<lparr>envs := (envs ex_state)[0 := (envs ex_state ! 0)\<lparr>env_status := ENV_DYING\<rparr>],
                 curenv := Some 0\<rparr>) = Some 0
   \<and> env_run (ex_state\<lparr>envs := (envs ex_state)[0 := (envs ex_state ! 0)\<lparr>env_status := ENV_DYING\<rparr>],
                 curenv := Some 0\<rparr>) 0 =
       SchedYield (env_free
         (ex_state\<lparr>envs := (envs ex_state)[0 := (envs ex_state ! 0)\<lparr>env_status := ENV_DYING\<rparr>],
                 curenv := Some 0\<rparr>) 0)"
proof -
  let ?d = "ex_state\<lparr>envs := (envs ex_state)[0 := (envs ex_state ! 0)\<lparr>env_status := ENV_DYING\<rparr>],
                 curenv := Some 0\<rparr>"
  have h: "0 < NENV ex_state" "\<forall>c. curenv ex_state = Some c \<longrightarrow> c < NENV ex_state"
    "0 < NENV ?d" "\<forall>c. curenv ?d = Some c \<longrightarrow> c < NENV ?d"
    by (simp_all add: ex_state_eq NENV_def)
  have f: "curenv ex_state = None" "curenv ?d = Some 0"
    "env_status (envs ?d ! 0) = ENV_DYING"
    by (simp_all add: ex_state_eq)
  have r: "env_run ex_state 0 =
       PopTf (ex_state\<lparr>envs := (envs ex_state)
                 [0 := (envs ex_state ! 0)\<lparr>env_status := ENV_RUNNING, env_runs := 1\<rparr>],
               curenv := Some 0\<rparr>)
         (env_tf (envs ex_state ! 0))"
    using env_run_spec [OF h(1) h(2)]
    by (simp add: env_run_def env_run_prev_def Let_def ex_state_eq)
  show ?thesis
    using env_run_spec [OF h(3) h(4)] h(1) f r by simp
qed

section \<open>Memory, segments and symbols\<close>

declare load_segments.simps [simp del] find_strtab.simps [simp del]
  bind_symbols.simps [simp del] bind_sections.simps [simp del]

lemmas rd_defs = rd64_def rd32_def rd16_def
lemmas hdr_defs = e_magic_def e_elf_def e_type_def e_machine_def e_entry_def e_phoff_def e_shoff_def
  e_ehsize_def e_phentsize_def e_phnum_def e_shentsize_def e_shnum_def e_shstrndx_def
lemmas sh_defs = sh_name_def sh_type_def sh_offset_def sh_size_def sh_entsize_def
lemmas ph_defs = p_type_def p_offset_def p_va_def p_filesz_def p_memsz_def

lemmas st_defs = st_name_def st_info_def st_other_def st_value_def st_size_def




lemma memcpy_val_in: "k < 8 \<Longrightarrow> memcpy_val m dst v (dst + k) = ucast (drop_bit (8 * unat k) v)"
  by (simp add: memcpy_val_def)




lemma memcpy_in: "k < n \<Longrightarrow> memcpy m dst src n (dst + k) = m (src + k)"
  by (simp add: memcpy_def)

lemma memcpy_out: "\<not> a - dst < n \<Longrightarrow> memcpy m dst src n a = m a"
  by (simp add: memcpy_def)

lemma memset_in: "k < n \<Longrightarrow> memset m dst c n (dst + k) = c"
  by (simp add: memset_def)

lemma memset_out: "\<not> a - dst < n \<Longrightarrow> memset m dst c n a = m a"
  by (simp add: memset_def)

text \<open>What an accepted segment leaves in memory.\<close>

lemma load_segment_effect:
  assumes ok: "load_segment utop m binary sz p = Inr m'"
  defines "filesz \<equiv> min (p_filesz m p) (p_memsz m p)"
  shows "(\<forall>k. k < filesz \<longrightarrow> m' (p_va m p + k) = m (binary + p_offset m p + k))
    \<and> (\<forall>k. filesz \<le> k \<and> k < p_memsz m p \<longrightarrow> m' (p_va m p + k) = 0)
    \<and> (\<forall>a. \<not> a - p_va m p < p_memsz m p \<longrightarrow> m' a = m a)
    \<and> binary + p_offset m p + filesz \<le> binary + sz
    \<and> p_va m p + p_memsz m p \<le> utop"
proof -
  let ?va = "p_va m p" and ?src = "binary + p_offset m p" and ?memsz = "p_memsz m p"
  have fm: "filesz \<le> ?memsz" by (simp add: filesz_def)
  have m': "m' = memset (memcpy m ?va ?src filesz) (?va + filesz) 0 (?memsz - filesz)"
    and c1: "?src + filesz \<le> binary + sz" and c2: "?va + ?memsz \<le> utop"
    using ok by (auto simp: load_segment_def Let_def filesz_def split: if_splits)
  have copy: "m' (?va + k) = m (?src + k)" if "k < filesz" for k
  proof -
    have "\<not> k - filesz < ?memsz - filesz"
      using that fm by unat_arith
    then have "m' (?va + k) = memcpy m ?va ?src filesz (?va + k)"
      by (simp add: m' memset_def)
    then show ?thesis using that by (simp add: memcpy_in)
  qed
  have zero: "m' (?va + k) = 0" if "filesz \<le> k" and "k < ?memsz" for k
  proof -
    have "k - filesz < ?memsz - filesz"
      using that by unat_arith
    then show ?thesis by (simp add: m' memset_def)
  qed
  have out: "m' a = m a" if "\<not> a - ?va < ?memsz" for a
  proof -
    have 1: "\<not> a - ?va < filesz" using that fm by unat_arith
    have 2: "\<not> a - ?va - filesz < ?memsz - filesz" using that fm by unat_arith
    from 2 have "\<not> a - (?va + filesz) < ?memsz - filesz"
      by (simp add: diff_diff_eq)
    with 1 show ?thesis by (simp add: m' memset_def memcpy_def)
  qed
  from copy zero out c1 c2 show ?thesis by (simp add: filesz_def)
qed

text \<open>
  Every failure of \<open>load_icode\<close> is \<open>-E_INVALID_EXE\<close>; a failure of a check that comes
  before the segment loop leaves the environment and the memory as they were; on success
  the saved instruction pointer is the entry point read after the segment loop.
\<close>

lemma load_icode_error_kind:
  "fst (load_icode kc ff env m binary sz) = Inr ()
   \<or> fst (load_icode kc ff env m binary sz) = Inl E_INVALID_EXE"
  by (simp add: load_icode_def Let_def split: prod.splits sum.splits)

lemma load_icode_header_rejects:
  assumes "sz < sizeof_Elf
      \<or> e_magic m binary \<noteq> ELF_MAGIC \<or> e_elf m binary 0 \<noteq> 2 \<or> e_elf m binary 1 \<noteq> 1
      \<or> e_elf m binary 2 \<noteq> 1 \<or> e_type m binary \<noteq> ET_EXEC \<or> e_machine m binary \<noteq> 0x3E
      \<or> ucast (e_ehsize m binary) < sizeof_Elf
      \<or> ucast (e_shentsize m binary) \<noteq> sizeof_Secthdr
      \<or> ucast (e_phentsize m binary) \<noteq> sizeof_Proghdr
      \<or> e_shstrndx m binary \<ge> e_shnum m binary
      \<or> binary + e_shoff m binary + sizeof_Secthdr * ucast (e_shnum m binary) > binary + sz
      \<or> sh_type m (binary + e_shoff m binary + sizeof_Secthdr * ucast (e_shstrndx m binary))
           \<noteq> ELF_SHT_STRTAB
      \<or> sh_offset m (binary + e_shoff m binary + sizeof_Secthdr * ucast (e_shstrndx m binary))
          + sh_size m (binary + e_shoff m binary + sizeof_Secthdr * ucast (e_shstrndx m binary))
          > sz
      \<or> sh_size m (binary + e_shoff m binary + sizeof_Secthdr * ucast (e_shstrndx m binary)) = 0
      \<or> m (binary
            + (sh_offset m (binary + e_shoff m binary + sizeof_Secthdr * ucast (e_shstrndx m binary))
               + sh_size m (binary + e_shoff m binary + sizeof_Secthdr * ucast (e_shstrndx m binary))
               - 1)) \<noteq> 0
      \<or> binary + e_phoff m binary + sizeof_Proghdr * ucast (e_phnum m binary) > binary + sz"
  shows "load_icode kc ff env m binary sz = (Inl E_INVALID_EXE, env, m)"
  using assms by (auto simp: load_icode_def Let_def)

lemma load_icode_success_rip:
  assumes ok: "fst (load_icode kc ff env m binary sz) = Inr ()"
  shows "tf_rip (env_tf (fst (snd (load_icode kc ff env m binary sz))))
     = e_entry (fst (snd (load_segments (UTOP kc) binary sz (binary + e_phoff m binary) 0 m
                   (UTOP kc) 0))) binary"
proof -
  obtain rc m' mn mx where seg:
    "load_segments (UTOP kc) binary sz (binary + e_phoff m binary) 0 m (UTOP kc) 0
       = (rc, m', mn, mx)"
    by (metis prod_cases4)
  obtain rb m'' where bf: "bind_functions ff m' binary sz mn mx = (rb, m'')"
    by (metis surj_pair)
  show ?thesis
    using ok by (cases rc; cases rb) (simp_all add: load_icode_def Let_def seg bf split: if_splits)
qed


section \<open>Loading: range checks that wrap around\<close>

lemma dstwrap_header:
  "e_magic mem_dstwrap 0x100000 = ELF_MAGIC"
  "e_elf mem_dstwrap 0x100000 0 = 2"
  "e_elf mem_dstwrap 0x100000 1 = 1"
  "e_elf mem_dstwrap 0x100000 2 = 1"
  "e_type mem_dstwrap 0x100000 = ET_EXEC"
  "e_machine mem_dstwrap 0x100000 = 0x3E"
  "e_ehsize mem_dstwrap 0x100000 = 64"
  "e_shentsize mem_dstwrap 0x100000 = 64"
  "e_phentsize mem_dstwrap 0x100000 = 56"
  "e_shstrndx mem_dstwrap 0x100000 = 0"
  "e_shnum mem_dstwrap 0x100000 = 1"
  "e_phnum mem_dstwrap 0x100000 = 2"
  "e_shoff mem_dstwrap 0x100000 = 176"
  "e_phoff mem_dstwrap 0x100000 = 64"
  by (simp_all add: hdr_defs rd_defs mem_dstwrap_def zero_mem_def ELF_MAGIC_def ET_EXEC_def)

lemma dstwrap_sects:
  "sh_name mem_dstwrap 0x1000B0 = 0"
  "sh_type mem_dstwrap 0x1000B0 = ELF_SHT_STRTAB"
  "sh_offset mem_dstwrap 0x1000B0 = 7"
  "sh_size mem_dstwrap 0x1000B0 = 1"
  "mem_dstwrap 0x100007 = 0"
  "p_type mem_dstwrap 0x100040 = ELF_PROG_LOAD"
  "p_offset mem_dstwrap 0x100040 = 0"
  "p_va mem_dstwrap 0x100040 = 0x200000"
  "p_filesz mem_dstwrap 0x100040 = 0x40"
  "p_memsz mem_dstwrap 0x100040 = 0x1000"
  by (simp_all add: sh_defs ph_defs rd_defs mem_dstwrap_def zero_mem_def ELF_SHT_STRTAB_def
      ELF_PROG_LOAD_def)

lemma dstwrap_1_fields:
  "e_phnum mem_dstwrap_1 0x100000 = 2"
  "p_type mem_dstwrap_1 0x100078 = ELF_PROG_LOAD"
  "p_offset mem_dstwrap_1 0x100078 = 0"
  "p_va mem_dstwrap_1 0x100078 = 0xFFFFFFFFFFFFF000"
  "p_filesz mem_dstwrap_1 0x100078 = 0x40"
  "p_memsz mem_dstwrap_1 0x100078 = 0x1000"
  by (simp_all add: hdr_defs ph_defs rd_defs mem_dstwrap_1_def memset_def memcpy_def
      mem_dstwrap_def zero_mem_def ELF_PROG_LOAD_def)

lemma dstwrap_loaded_fields:
  "e_phnum mem_dstwrap_loaded 0x100000 = 2"
  "e_entry mem_dstwrap_loaded 0x100000 = 0x200000"
  "e_shoff mem_dstwrap_loaded 0x100000 = 176"
  "e_shstrndx mem_dstwrap_loaded 0x100000 = 0"
  "e_shnum mem_dstwrap_loaded 0x100000 = 1"
  "sh_name mem_dstwrap_loaded 0x1000B0 = 0"
  "sh_type mem_dstwrap_loaded 0x1000B0 = ELF_SHT_STRTAB"
  "sh_offset mem_dstwrap_loaded 0x1000B0 = 7"
  "sh_size mem_dstwrap_loaded 0x1000B0 = 1"
  "mem_dstwrap_loaded 0x100007 = 0"
  by (simp_all add: hdr_defs sh_defs rd_defs mem_dstwrap_loaded_def mem_dstwrap_1_def
      memset_def memcpy_def mem_dstwrap_def zero_mem_def ELF_SHT_STRTAB_def)

lemma dstwrap_segment_0:
  "load_segment 0x8000000000 mem_dstwrap 0x100000 240 0x100040 = Inr mem_dstwrap_1"
  by (simp add: load_segment_def dstwrap_sects Let_def mem_dstwrap_1_def)

lemma dstwrap_segment_1:
  "load_segment 0x8000000000 mem_dstwrap_1 0x100000 240 0x100078 = Inr mem_dstwrap_loaded"
  by (simp add: load_segment_def dstwrap_1_fields Let_def mem_dstwrap_loaded_def)

lemma dstwrap_segments:
  "load_segments 0x8000000000 0x100000 240 0x100040 0 mem_dstwrap 0x8000000000 0
     = (Inr (), mem_dstwrap_loaded, 0x200000, 0x201000)"
  by (simp add: load_segments.simps [of _ _ _ _ 0] load_segments.simps [of _ _ _ _ "Suc 0"]
      load_segments.simps [of _ _ _ _ "Suc (Suc 0)"]
      dstwrap_header dstwrap_sects dstwrap_1_fields dstwrap_loaded_fields
      dstwrap_segment_0 dstwrap_segment_1 Let_def sizeof_Proghdr_def)

lemma dstwrap_bind:
  "bind_functions no_resolver mem_dstwrap_loaded 0x100000 240 0x200000 0x201000
     = (Inr (), mem_dstwrap_loaded)"
  by (simp add: bind_functions_def find_strtab.simps [of _ _ _ _ 0]
      find_strtab.simps [of _ _ _ _ "Suc 0"] dstwrap_loaded_fields Let_def sizeof_Secthdr_def
      dot_strtab_def)

lemma dstwrap_written:
  "mem_dstwrap 0xFFFFFFFFFFFFF000 = 0" "mem_dstwrap_loaded 0xFFFFFFFFFFFFF000 = 0x7F"
  "mem_dstwrap_loaded 0xFFFFFFFFFFFFF001 = 0x45"
  by (simp_all add: mem_dstwrap_loaded_def mem_dstwrap_1_def memset_def memcpy_def
      mem_dstwrap_def zero_mem_def)

text \<open>
  C4 fails on the code where a destination range wraps around. The image in
  \<open>mem_dstwrap\<close> (240 bytes at \<open>0x100000\<close>) has two loadable segments; the second declares
  virtual address \<open>0xFFFFFFFFFFFFF000\<close> and memory size \<open>0x1000\<close>, a destination far above
  \<open>UTOP\<close>. The check \<open>dst + memsz > UTOP\<close> is computed modulo \<open>2 ^ 64\<close>, the sum is 0, and
  the segment is accepted: \<open>load_icode\<close> returns 0, and the bytes at \<open>0xFFFFFFFFFFFFF000\<close>
  have been overwritten with the file's bytes. For an accepted segment the copy and the
  zero fill are as C4 says (\<open>load_segment_effect\<close>), and on success the saved instruction
  pointer is the entry point (\<open>load_icode_success_rip\<close>).
\<close>

theorem load_icode_destination_wraparound:
  "load_icode ex_kc no_resolver blank_env mem_dstwrap 0x100000 240
     = (Inr (), blank_env\<lparr>env_tf := (env_tf blank_env)\<lparr>tf_rip := 0x200000\<rparr>\<rparr>, mem_dstwrap_loaded)
   \<and> p_type mem_dstwrap (0x100000 + e_phoff mem_dstwrap 0x100000 + sizeof_Proghdr) = ELF_PROG_LOAD
   \<and> p_va mem_dstwrap (0x100000 + e_phoff mem_dstwrap 0x100000 + sizeof_Proghdr)
       = 0xFFFFFFFFFFFFF000
   \<and> p_memsz mem_dstwrap (0x100000 + e_phoff mem_dstwrap 0x100000 + sizeof_Proghdr) = 0x1000
   \<and> UTOP ex_kc < 0xFFFFFFFFFFFFF000
   \<and> mem_dstwrap 0xFFFFFFFFFFFFF000 = 0
   \<and> mem_dstwrap_loaded 0xFFFFFFFFFFFFF000 = 0x7F"
proof -
  have run: "load_icode ex_kc no_resolver blank_env mem_dstwrap 0x100000 240
     = (Inr (), blank_env\<lparr>env_tf := (env_tf blank_env)\<lparr>tf_rip := 0x200000\<rparr>\<rparr>, mem_dstwrap_loaded)"
    by (simp add: load_icode_def dstwrap_header dstwrap_sects dstwrap_segments dstwrap_bind
      dstwrap_loaded_fields Let_def sizeof_Elf_def sizeof_Secthdr_def sizeof_Proghdr_def
      ex_kc_def ELF_MAGIC_def ET_EXEC_def ELF_SHT_STRTAB_def)
  have seg: "p_type mem_dstwrap 0x100078 = ELF_PROG_LOAD"
    "p_va mem_dstwrap 0x100078 = 0xFFFFFFFFFFFFF000"
    "p_memsz mem_dstwrap 0x100078 = 0x1000"
    by (simp_all add: ph_defs rd_defs mem_dstwrap_def zero_mem_def ELF_PROG_LOAD_def)
  show ?thesis
    using run seg dstwrap_written by (simp add: dstwrap_header sizeof_Proghdr_def ex_kc_def)
qed

text \<open>The run of \<open>load_icode\<close> on \<open>mem_dstwrap\<close>, taken from the theorem above.\<close>

theorem load_icode_destination_wraparound_witness:
  "load_icode ex_kc no_resolver blank_env mem_dstwrap 0x100000 240
     = (Inr (), blank_env\<lparr>env_tf := (env_tf blank_env)\<lparr>tf_rip := 0x200000\<rparr>\<rparr>, mem_dstwrap_loaded)"
  using load_icode_destination_wraparound by (rule conjunct1)

lemma strwrap_header:
  "e_magic mem_strwrap 0x100000 = ELF_MAGIC"
  "e_elf mem_strwrap 0x100000 0 = 2"
  "e_elf mem_strwrap 0x100000 1 = 1"
  "e_elf mem_strwrap 0x100000 2 = 1"
  "e_type mem_strwrap 0x100000 = ET_EXEC"
  "e_machine mem_strwrap 0x100000 = 0x3E"
  "e_ehsize mem_strwrap 0x100000 = 64"
  "e_shentsize mem_strwrap 0x100000 = 64"
  "e_phentsize mem_strwrap 0x100000 = 56"
  "e_shstrndx mem_strwrap 0x100000 = 0"
  "e_shnum mem_strwrap 0x100000 = 1"
  "e_phnum mem_strwrap 0x100000 = 1"
  "e_shoff mem_strwrap 0x100000 = 120"
  "e_phoff mem_strwrap 0x100000 = 64"
  "e_entry mem_strwrap 0x100000 = 0x200000"
  by (simp_all add: hdr_defs rd_defs mem_strwrap_def zero_mem_def ELF_MAGIC_def ET_EXEC_def)

lemma strwrap_sects:
  "sh_name mem_strwrap 0x100078 = 1"
  "sh_type mem_strwrap 0x100078 = ELF_SHT_STRTAB"
  "sh_offset mem_strwrap 0x100078 = 0xFFFFFFFFFFFFFFFF"
  "sh_size mem_strwrap 0x100078 = 9"
  "mem_strwrap 0x10000000000100007 = 0"
  "p_type mem_strwrap 0x100040 = ELF_PROG_LOAD"
  "p_offset mem_strwrap 0x100040 = 0"
  "p_va mem_strwrap 0x100040 = 0x200000"
  "p_filesz mem_strwrap 0x100040 = 0x40"
  "p_memsz mem_strwrap 0x100040 = 0x1000"
  by (simp_all add: sh_defs ph_defs rd_defs mem_strwrap_def zero_mem_def ELF_SHT_STRTAB_def
      ELF_PROG_LOAD_def)

lemma strwrap_segment:
  "load_segment 0x8000000000 mem_strwrap 0x100000 184 0x100040 = Inr mem_strwrap_loaded"
  by (simp add: load_segment_def strwrap_sects Let_def mem_strwrap_loaded_def)

lemma strwrap_loaded_fields:
  "e_phnum mem_strwrap_loaded 0x100000 = 1"
  "e_entry mem_strwrap_loaded 0x100000 = 0x200000"
  "e_shoff mem_strwrap_loaded 0x100000 = 120"
  "e_shstrndx mem_strwrap_loaded 0x100000 = 0"
  "e_shnum mem_strwrap_loaded 0x100000 = 1"
  "sh_name mem_strwrap_loaded 0x100078 = 1"
  "sh_type mem_strwrap_loaded 0x100078 = ELF_SHT_STRTAB"
  "sh_offset mem_strwrap_loaded 0x100078 = 0xFFFFFFFFFFFFFFFF"
  "sh_size mem_strwrap_loaded 0x100078 = 9"
  "mem_strwrap_loaded 0x10000000000100000 = 0x7F"
  by (simp_all add: hdr_defs sh_defs rd_defs mem_strwrap_loaded_def memset_def memcpy_def
      mem_strwrap_def zero_mem_def ELF_SHT_STRTAB_def)

lemma strwrap_segments:
  "load_segments 0x8000000000 0x100000 184 0x100040 0 mem_strwrap 0x8000000000 0
     = (Inr (), mem_strwrap_loaded, 0x200000, 0x201000)"
  by (simp add: load_segments.simps [of _ _ _ _ 0] load_segments.simps [of _ _ _ _ "Suc 0"]
      strwrap_header strwrap_sects strwrap_segment strwrap_loaded_fields Let_def
      sizeof_Proghdr_def)

lemma strwrap_bind:
  "bind_functions no_resolver mem_strwrap_loaded 0x100000 184 0x200000 0x201000
     = (Inr (), mem_strwrap_loaded)"
  by (simp add: bind_functions_def find_strtab.simps [of _ _ _ _ 0]
      find_strtab.simps [of _ _ _ _ "Suc 0"] strwrap_loaded_fields Let_def sizeof_Secthdr_def
      dot_strtab_def)

text \<open>
  C5 fails on the code where an offset plus a size wraps around. The image in
  \<open>mem_strwrap\<close> (184 bytes at \<open>0x100000\<close>) declares a section-name string table at offset
  \<open>0xFFFFFFFFFFFFFFFF\<close> of size 9, which lies past the buffer. The check
  \<open>sh_offset + sh_size > size\<close> is computed modulo \<open>2 ^ 64\<close>: the sum is 8, the terminator
  is read at offset 7, inside the header, and \<open>load_icode\<close> returns 0 instead of
  \<open>-E_INVALID_EXE\<close>. (Addresses are taken modulo \<open>2 ^ 64\<close>: \<open>0x10000000000100007\<close> is
  \<open>0x100007\<close>.) The checks that do not wrap reject as C5 says
  (\<open>load_icode_header_rejects\<close>), and every failure is \<open>-E_INVALID_EXE\<close>
  (\<open>load_icode_error_kind\<close>).
\<close>

theorem load_icode_strtab_wraparound:
  "load_icode ex_kc no_resolver blank_env mem_strwrap 0x100000 184
     = (Inr (), blank_env\<lparr>env_tf := (env_tf blank_env)\<lparr>tf_rip := 0x200000\<rparr>\<rparr>, mem_strwrap_loaded)
   \<and> sh_offset mem_strwrap (0x100000 + e_shoff mem_strwrap 0x100000) = 0xFFFFFFFFFFFFFFFF
   \<and> sh_size mem_strwrap (0x100000 + e_shoff mem_strwrap 0x100000) = 9
   \<and> 184 < unat (sh_offset mem_strwrap (0x100000 + e_shoff mem_strwrap 0x100000))"
  by (simp add: load_icode_def strwrap_header strwrap_sects strwrap_segments strwrap_bind
      strwrap_loaded_fields Let_def sizeof_Elf_def sizeof_Secthdr_def sizeof_Proghdr_def
      ex_kc_def ELF_MAGIC_def ET_EXEC_def ELF_SHT_STRTAB_def)

text \<open>The run of \<open>load_icode\<close> on \<open>mem_strwrap\<close>, taken from the theorem above.\<close>

theorem load_icode_strtab_wraparound_witness:
  "load_icode ex_kc no_resolver blank_env mem_strwrap 0x100000 184
     = (Inr (), blank_env\<lparr>env_tf := (env_tf blank_env)\<lparr>tf_rip := 0x200000\<rparr>\<rparr>, mem_strwrap_loaded)"
  using load_icode_strtab_wraparound by (rule conjunct1)

section \<open>Symbol binding\<close>

lemma syms_fields:
  "st_name mem_syms 0x300000 = 1" "st_info mem_syms 0x300000 = 0x11"
  "st_other mem_syms 0x300000 = 0" "st_value mem_syms 0x300000 = 0x200010"
  "st_size mem_syms 0x300000 = 8"
  "st_name mem_syms 0x300018 = 1" "st_info mem_syms 0x300018 = 0x11"
  "st_other mem_syms 0x300018 = 0" "st_value mem_syms 0x300018 = 0x201000"
  "st_size mem_syms 0x300018 = 8"
  "st_info mem_syms 0x300030 = 0"
  "st_name mem_syms 0x300048 = 1" "st_info mem_syms 0x300048 = 0x11"
  "st_other mem_syms 0x300048 = 0" "st_value mem_syms 0x300048 = 0x400000"
  "st_size mem_syms 0x300048 = 8"
  "sh_size mem_syms 0x300100 = 0x10"
  by (simp_all add: st_defs sh_defs rd_defs mem_syms_def zero_mem_def)

lemma syms_kinds:
  "ELF64_ST_BIND 0x11 = STB_GLOBAL" "ELF64_ST_TYPE 0x11 = STT_OBJECT"
  "ELF64_ST_BIND 0 \<noteq> STB_GLOBAL" "STV_DEFAULT = 0"
  by (simp_all add: ELF64_ST_BIND_def ELF64_ST_TYPE_def STB_GLOBAL_def STT_OBJECT_def
      STV_DEFAULT_def)





text \<open>
  C10. The address check of the symbol loop is inclusive at both ends. For a symbol that
  reaches it (GLOBAL, OBJECT, DEFAULT, of size 8, with its name offset within the string
  table), the symbol is rejected exactly when its value is strictly below \<open>image_start\<close> or
  strictly above \<open>image_end\<close>. A value equal to \<open>image_end\<close> passes, and when the resolver
  resolves the name, the eight bytes from \<open>image_end\<close> on are overwritten: the write begins
  at the end address of the span and none of its bytes lies below it. (\<open>load_icode\<close> calls
  \<open>bind_functions\<close> only with \<open>min_addr < max_addr\<close>.)
\<close>

theorem bind_symbol_end_inclusive:
  fixes ff :: resolver and m :: mem
    and strings strtab_sh image_start image_end sy :: "64 word"
  defines "candidate \<equiv> ELF64_ST_BIND (st_info m sy) = STB_GLOBAL
        \<and> ELF64_ST_TYPE (st_info m sy) = STT_OBJECT
        \<and> st_other m sy = STV_DEFAULT \<and> st_size m sy = 8
        \<and> \<not> strings + ucast (st_name m sy) > strings + sh_size m strtab_sh"
    and "addr \<equiv> ff m (strings + ucast (st_name m sy))"
  shows "(candidate \<longrightarrow>
           (bind_symbol ff m strings strtab_sh image_start image_end sy = Inl E_INVALID_EXE
              \<longleftrightarrow> st_value m sy < image_start \<or> image_end < st_value m sy))
    \<and> (candidate \<and> image_start \<le> image_end \<and> st_value m sy = image_end \<longrightarrow>
          bind_symbol ff m strings strtab_sh image_start image_end sy \<noteq> Inl E_INVALID_EXE)
    \<and> (candidate \<and> image_start \<le> image_end \<and> st_value m sy = image_end \<and> addr \<noteq> 0 \<longrightarrow>
          bind_symbol ff m strings strtab_sh image_start image_end sy
            = Inr (memcpy_val m image_end addr)
          \<and> (\<forall>k. k < 8 \<longrightarrow>
                memcpy_val m image_end addr (image_end + k) = ucast (drop_bit (8 * unat k) addr))
          \<and> (unat image_end + 8 \<le> 2 ^ 64 \<longrightarrow>
                (\<forall>k. k < 8 \<longrightarrow> image_end \<le> image_end + k)))"
proof -
  have rej: "bind_symbol ff m strings strtab_sh image_start image_end sy = Inl E_INVALID_EXE
           \<longleftrightarrow> st_value m sy < image_start \<or> image_end < st_value m sy"
    if candidate
    using that by (simp add: bind_symbol_def Let_def candidate_def)
  have pass: "bind_symbol ff m strings strtab_sh image_start image_end sy \<noteq> Inl E_INVALID_EXE"
    if candidate "image_start \<le> image_end" "st_value m sy = image_end"
    using that rej by auto
  have at_end: "bind_symbol ff m strings strtab_sh image_start image_end sy
            = Inr (memcpy_val m image_end addr)"
    if candidate "image_start \<le> image_end" "st_value m sy = image_end" "addr \<noteq> 0"
    using that by (simp add: bind_symbol_def Let_def candidate_def addr_def)
  have past: "image_end \<le> image_end + k" if "unat image_end + 8 \<le> 2 ^ 64" "k < 8" for k
  proof -
    have "unat k < 8" using that(2) by (simp add: word_less_nat_alt)
    then have "unat image_end + unat k < 2 ^ 64" using that(1) by simp
    then have "unat (image_end + k) = unat image_end + unat k"
      using unat_add_lem [of image_end k] by simp
    then show ?thesis by (simp add: word_le_nat_alt)
  qed
  from rej pass at_end past show ?thesis
    by (simp add: memcpy_val_in)
qed

theorem bind_symbol_end_inclusive_witness:
  "st_value mem_syms 0x300018 = 0x201000
   \<and> (0x200000 :: 64 word) \<le> 0x201000
   \<and> bind_symbol kernel_resolver mem_syms 0x300200 0x300100 0x200000 0x201000 0x300018
       = Inr (memcpy_val mem_syms 0x201000 0x8041600000)
   \<and> memcpy_val mem_syms 0x201000 0x8041600000 0x201000 = 0
   \<and> memcpy_val mem_syms 0x201000 0x8041600000 0x201002 = 0x60
   \<and> memcpy_val mem_syms 0x201000 0x8041600000 0x201007 = 0
   \<and> st_value mem_syms 0x300048 = 0x400000
   \<and> bind_symbol kernel_resolver mem_syms 0x300200 0x300100 0x200000 0x201000 0x300048
       = Inl E_INVALID_EXE"
proof -
  have c1: "ELF64_ST_BIND (st_info mem_syms 0x300018) = STB_GLOBAL
        \<and> ELF64_ST_TYPE (st_info mem_syms 0x300018) = STT_OBJECT
        \<and> st_other mem_syms 0x300018 = STV_DEFAULT \<and> st_size mem_syms 0x300018 = 8
        \<and> \<not> 0x300200 + ucast (st_name mem_syms 0x300018) > 0x300200 + sh_size mem_syms 0x300100"
    by (simp add: syms_fields syms_kinds)
  have c2: "ELF64_ST_BIND (st_info mem_syms 0x300048) = STB_GLOBAL
        \<and> ELF64_ST_TYPE (st_info mem_syms 0x300048) = STT_OBJECT
        \<and> st_other mem_syms 0x300048 = STV_DEFAULT \<and> st_size mem_syms 0x300048 = 8
        \<and> \<not> 0x300200 + ucast (st_name mem_syms 0x300048) > 0x300200 + sh_size mem_syms 0x300100"
    by (simp add: syms_fields syms_kinds)
  have v1: "st_value mem_syms 0x300018 = 0x201000" and span: "(0x200000 :: 64 word) \<le> 0x201000"
    and r: "kernel_resolver mem_syms (0x300200 + ucast (st_name mem_syms 0x300018)) \<noteq> 0"
    and v2: "st_value mem_syms 0x300048 = 0x400000"
    and above: "(0x201000 :: 64 word) < st_value mem_syms 0x300048"
    by (simp_all add: syms_fields kernel_resolver_def)
  have "bind_symbol kernel_resolver mem_syms 0x300200 0x300100 0x200000 0x201000 0x300018
       = Inr (memcpy_val mem_syms 0x201000
           (kernel_resolver mem_syms (0x300200 + ucast (st_name mem_syms 0x300018))))"
    using bind_symbol_end_inclusive [of mem_syms "0x300018" "0x300200" "0x300100"
        kernel_resolver "0x200000" "0x201000"] c1 v1 span r
    by blast
  then have at_end: "bind_symbol kernel_resolver mem_syms 0x300200 0x300100 0x200000 0x201000
       0x300018 = Inr (memcpy_val mem_syms 0x201000 0x8041600000)"
    by (simp add: kernel_resolver_def)
  have rejected: "bind_symbol kernel_resolver mem_syms 0x300200 0x300100 0x200000 0x201000
       0x300048 = Inl E_INVALID_EXE"
    using bind_symbol_end_inclusive [of mem_syms "0x300048" "0x300200" "0x300100"
        kernel_resolver "0x200000" "0x201000"] c2 above
    by blast
  have bytes: "memcpy_val mem_syms 0x201000 0x8041600000 0x201000 = 0"
    "memcpy_val mem_syms 0x201000 0x8041600000 0x201002 = 0x60"
    "memcpy_val mem_syms 0x201000 0x8041600000 0x201007 = 0"
    by (simp_all add: memcpy_val_def)
  from v1 span at_end bytes v2 rejected show ?thesis
    by (intro conjI)
qed

end
